theory Spec2Isabelle
  imports Complex_Main "HOL-Library.Multiset"
begin

unbundle bit_operations_syntax

section \<open>JavaScript numbers\<close>

text \<open>
  A JavaScript number is an IEEE double. The model keeps the three special values apart
  from the finite ones, because comparisons, arithmetic and printing treat them
  differently, and idealises a finite double as a real: rounding, overflow to an infinity
  and the sign of zero are not modelled. \<open>Fin r\<close> is the finite number \<open>r\<close>.
\<close>

datatype jsnum = Fin real | PInf | NInf | NaN

fun js_neg :: "jsnum \<Rightarrow> jsnum" where
  "js_neg (Fin a) = Fin (- a)"
| "js_neg PInf = NInf"
| "js_neg NInf = PInf"
| "js_neg NaN = NaN"

fun js_add :: "jsnum \<Rightarrow> jsnum \<Rightarrow> jsnum" where
  "js_add NaN _ = NaN"
| "js_add _ NaN = NaN"
| "js_add (Fin a) (Fin b) = Fin (a + b)"
| "js_add PInf NInf = NaN"
| "js_add NInf PInf = NaN"
| "js_add PInf _ = PInf"
| "js_add _ PInf = PInf"
| "js_add NInf _ = NInf"
| "js_add _ NInf = NInf"

definition js_sub :: "jsnum \<Rightarrow> jsnum \<Rightarrow> jsnum" where
  "js_sub a b = js_add a (js_neg b)"

text \<open>The infinity with the sign of a finite non-zero factor; zero times infinity is NaN.\<close>

definition inf_signed :: "real \<Rightarrow> jsnum" where
  "inf_signed a = (if a = 0 then NaN else if 0 < a then PInf else NInf)"

fun js_mul :: "jsnum \<Rightarrow> jsnum \<Rightarrow> jsnum" where
  "js_mul NaN _ = NaN"
| "js_mul _ NaN = NaN"
| "js_mul (Fin a) (Fin b) = Fin (a * b)"
| "js_mul (Fin a) PInf = inf_signed a"
| "js_mul (Fin a) NInf = inf_signed (- a)"
| "js_mul PInf (Fin b) = inf_signed b"
| "js_mul NInf (Fin b) = inf_signed (- b)"
| "js_mul PInf PInf = PInf"
| "js_mul NInf NInf = PInf"
| "js_mul PInf NInf = NInf"
| "js_mul NInf PInf = NInf"

text \<open>
  Division. The model has one zero, read as \<open>+0\<close> when it is the divisor; the sources
  divide by the literals \<open>2\<close> and \<open>6.0\<close> only.
\<close>

fun js_div :: "jsnum \<Rightarrow> jsnum \<Rightarrow> jsnum" where
  "js_div NaN _ = NaN"
| "js_div _ NaN = NaN"
| "js_div (Fin a) (Fin b) = (if b = 0 then inf_signed a else Fin (a / b))"
| "js_div (Fin a) PInf = Fin 0"
| "js_div (Fin a) NInf = Fin 0"
| "js_div PInf (Fin b) = (if 0 \<le> b then PInf else NInf)"
| "js_div NInf (Fin b) = (if 0 \<le> b then NInf else PInf)"
| "js_div PInf PInf = NaN"
| "js_div PInf NInf = NaN"
| "js_div NInf PInf = NaN"
| "js_div NInf NInf = NaN"

text \<open>The comparison \<open>a < b\<close>: false as soon as one side is NaN.\<close>

fun js_lt :: "jsnum \<Rightarrow> jsnum \<Rightarrow> bool" where
  "js_lt NaN _ = False"
| "js_lt _ NaN = False"
| "js_lt (Fin a) (Fin b) = (a < b)"
| "js_lt NInf NInf = False"
| "js_lt NInf _ = True"
| "js_lt _ NInf = False"
| "js_lt PInf _ = False"
| "js_lt (Fin a) PInf = True"

fun js_floor :: "jsnum \<Rightarrow> jsnum" where
  "js_floor (Fin a) = Fin (of_int \<lfloor>a\<rfloor>)"
| "js_floor v = v"

fun js_sqrt :: "jsnum \<Rightarrow> jsnum" where
  "js_sqrt (Fin a) = (if a < 0 then NaN else Fin (sqrt a))"
| "js_sqrt PInf = PInf"
| "js_sqrt v = NaN"

fun js_sin :: "jsnum \<Rightarrow> jsnum" where
  "js_sin (Fin a) = Fin (sin a)"
| "js_sin v = NaN"

fun js_cos :: "jsnum \<Rightarrow> jsnum" where
  "js_cos (Fin a) = Fin (cos a)"
| "js_cos v = NaN"

text \<open>
  An element read from an array is a number, or \<open>undefined\<close> (\<open>None\<close>) out of range.
  Arithmetic converts \<open>undefined\<close> to NaN.
\<close>

fun to_number :: "jsnum option \<Rightarrow> jsnum" where
  "to_number None = NaN"
| "to_number (Some v) = v"

section \<open>Height synthesis\<close>

text \<open>
  \<open>generateHeight(x, y)\<close> of both source files. The noise function \<open>this.noise.noise\<close>
  and \<open>this.seed\<close> are read from the object; here they are the first two arguments.
  In \<open>main.js\<close> the noise function is the library's \<open>SimplexNoise\<close>, in the other file it
  is the closure returned by \<open>makeNoise2D\<close>.
\<close>

definition generateHeight ::
  "(jsnum \<Rightarrow> jsnum \<Rightarrow> jsnum) \<Rightarrow> jsnum \<Rightarrow> jsnum \<Rightarrow> jsnum \<Rightarrow> jsnum" where
  "generateHeight noise seed x y =
    (let scale = Fin (1 / 2);
         height0 = Fin 0;
         height1 = js_add height0
           (js_mul (noise (js_add (js_mul x scale) seed) (js_add (js_mul y scale) seed))
                   (Fin 1));
         height2 = js_add height1
           (js_mul (noise (js_add (js_mul (js_mul x scale) (Fin 2)) seed)
                          (js_add (js_mul (js_mul y scale) (Fin 2)) seed))
                   (Fin (1 / 2)));
         height3 = js_add height2
           (js_mul (noise (js_add (js_mul (js_mul x scale) (Fin 4)) seed)
                          (js_add (js_mul (js_mul y scale) (Fin 4)) seed))
                   (Fin (1 / 4)))
     in height3)"

section \<open>Arrays\<close>

text \<open>
  Reading any JavaScript array at an index that is not one of its elements gives
  \<open>undefined\<close>. A typed array (\<open>Uint8Array\<close>, the vertex and index buffers) has a fixed
  length: a write outside it is ignored.
\<close>

definition array_get :: "'a list \<Rightarrow> nat \<Rightarrow> 'a option" where
  "array_get xs k = (if k < length xs then Some (xs ! k) else None)"

definition typed_set :: "'a list \<Rightarrow> nat \<Rightarrow> 'a \<Rightarrow> 'a list" where
  "typed_set xs k v = (if k < length xs then xs[k := v] else xs)"

text \<open>
  A \<open>Uint8Array\<close> stores a number modulo 256 and stores 0 for \<open>undefined\<close>. The values this
  program stores are array elements and loop counters, so non-negative integers.
\<close>

fun to_uint8 :: "nat option \<Rightarrow> nat" where
  "to_uint8 None = 0"
| "to_uint8 (Some v) = v mod 256"

definition u8_set :: "nat list \<Rightarrow> nat \<Rightarrow> nat option \<Rightarrow> nat list" where
  "u8_set xs k v = typed_set xs k (to_uint8 v)"

text \<open>
  An index computed in floating point (\<open>p[n]\<close> with \<open>n\<close> from \<open>Math.floor\<close>) names an
  element only when it is a non-negative integer.
\<close>

fun array_index :: "jsnum \<Rightarrow> nat option" where
  "array_index (Fin r) = (if 0 \<le> r \<and> r = of_int \<lfloor>r\<rfloor> then Some (nat \<lfloor>r\<rfloor>) else None)"
| "array_index v = None"

definition u8_get_num :: "nat list \<Rightarrow> jsnum \<Rightarrow> nat option" where
  "u8_get_num xs n = (case array_index n of None \<Rightarrow> None | Some k \<Rightarrow> array_get xs k)"

definition u8_set_num :: "nat list \<Rightarrow> jsnum \<Rightarrow> nat option \<Rightarrow> nat list" where
  "u8_set_num xs n v = (case array_index n of None \<Rightarrow> xs | Some k \<Rightarrow> u8_set xs k v)"

section \<open>The noise function\<close>

text \<open>
  \<open>makeNoise2D(random)\<close>. The random source is a function called once per shuffle step;
  \<open>random k\<close> is the value its \<open>k\<close>-th call returns.
\<close>

definition identity_table :: "nat list" where
  "identity_table = fold (\<lambda>i p. u8_set p i (Some i)) [0..<256] (replicate 256 0)"

text \<open>The loop \<open>for (let i = 255; i > 0; i--)\<close>, started as \<open>shuffle random 255 0 p\<close>.\<close>

fun shuffle :: "(nat \<Rightarrow> jsnum) \<Rightarrow> nat \<Rightarrow> nat \<Rightarrow> nat list \<Rightarrow> nat list" where
  "shuffle random 0 k p = p"
| "shuffle random (Suc i') k p =
    (let i = Suc i';
         n = js_floor (js_mul (Fin (real (i + 1))) (random k));
         q = array_get p i;
         p1 = u8_set p i (u8_get_num p n);
         p2 = u8_set_num p1 n q
     in shuffle random i' (Suc k) p2)"

definition fill_tables :: "nat list \<Rightarrow> nat list \<times> nat list" where
  "fill_tables p =
    fold (\<lambda>i (perm, permMod12).
            let perm' = u8_set perm i (array_get p (i AND 255));
                permMod12' = u8_set permMod12 i (map_option (\<lambda>v. v mod 12) (array_get perm' i))
            in (perm', permMod12'))
         [0..<512] (replicate 512 0, replicate 512 0)"

text \<open>
  What the returned closure captures: the two tables. The closure is this environment
  together with its body, \<open>noise2D\<close>.
\<close>

record noise_env =
  perm :: "nat list"
  permMod12 :: "nat list"

definition makeNoise2D :: "(nat \<Rightarrow> jsnum) \<Rightarrow> noise_env" where
  "makeNoise2D random =
    (let p = shuffle random 255 0 identity_table;
         (perm', permMod12') = fill_tables p
     in \<lparr>perm = perm', permMod12 = permMod12'\<rparr>)"

definition noise2D :: "noise_env \<Rightarrow> jsnum \<Rightarrow> jsnum \<Rightarrow> jsnum" where
  "noise2D env x y =
    (let F2 = js_mul (Fin (1 / 2)) (js_sub (js_sqrt (Fin 3)) (Fin 1));
         G2 = js_div (js_sub (Fin 3) (js_sqrt (Fin 3))) (Fin 6);
         s = js_mul (js_add x y) F2;
         i = js_floor (js_add x s);
         j = js_floor (js_add y s);
         t = js_mul (js_add i j) G2;
         X0 = js_sub i t;
         Y0 = js_sub j t;
         x0 = js_sub x X0;
         y0 = js_sub y Y0;
         n0 = js_add (js_mul x0 x0) (js_mul y0 y0)
     in js_mul (js_mul n0 (js_add (js_sin x0) (js_cos y0))) (Fin (1 / 2)))"

section \<open>The application object\<close>

text \<open>
  The fields of \<open>TopographicalMap\<close> the numeric pipeline reads or writes:
  \<open>noise\<close> is the closure held in \<open>this.noise.noise\<close>, given by its environment,
  \<open>vertices\<close> is \<open>terrain.geometry.attributes.position.array\<close> (three numbers per vertex;
  the rounding to single precision when this array stores a number is not modelled),
  \<open>indices\<close> is \<open>terrain.geometry.index.array\<close>, \<open>needsUpdate\<close> is the flag of the
  position attribute, and \<open>camera\<close> stands for the library's camera object.
  \<open>updateTerrain_loop\<close> takes the noise function and the seed as arguments, as
  \<open>generateHeight\<close> does.
\<close>

record 'c app =
  seed :: jsnum
  noise :: noise_env
  vertices :: "jsnum list"
  indices :: "nat list"
  needsUpdate :: bool
  camera :: 'c

function updateTerrain_loop ::
  "(jsnum \<Rightarrow> jsnum \<Rightarrow> jsnum) \<Rightarrow> jsnum \<Rightarrow> nat \<Rightarrow> jsnum list \<Rightarrow> jsnum list" where
  "updateTerrain_loop nf sd i vs =
    (if i < length vs then
       (let x = array_get vs i;
            y = array_get vs (i + 1)
        in updateTerrain_loop nf sd (i + 3)
             (typed_set vs (i + 2) (generateHeight nf sd (to_number x) (to_number y))))
     else vs)"
  by pat_completeness auto
termination
  by (relation "measure (\<lambda>(nf, sd, i, vs). length vs - i)") (auto simp: typed_set_def)

definition updateTerrain :: "'c app \<Rightarrow> 'c app" where
  "updateTerrain st =
    st\<lparr>vertices := updateTerrain_loop (noise2D (noise st)) (seed st) 0 (vertices st),
       needsUpdate := True\<rparr>"

text \<open>\<open>generateNewMap()\<close>; \<open>r\<close> is the value \<open>Math.random()\<close> returns.\<close>

definition generateNewMap :: "jsnum \<Rightarrow> 'c app \<Rightarrow> 'c app" where
  "generateNewMap r st = updateTerrain (st\<lparr>seed := js_mul r (Fin 1000)\<rparr>)"

section \<open>Projection\<close>

record point =
  point_x :: jsnum
  point_y :: jsnum
  point_z :: jsnum

text \<open>
  \<open>projectToSVG()\<close>. The library calls \<open>new THREE.Vector3(..).applyMatrix4(matrix).project(camera)\<close>
  are the parameter \<open>project\<close>, from the three array elements to the normalized device
  coordinates; \<open>W\<close> and \<open>H\<close> are \<open>window.innerWidth\<close> and \<open>window.innerHeight\<close>.
  \<open>svg_point\<close> is the object literal pushed for one vertex.
\<close>

fun svg_point :: "jsnum \<Rightarrow> jsnum \<Rightarrow> jsnum \<times> jsnum \<times> jsnum \<Rightarrow> point" where
  "svg_point W H (vx, vy, vz) =
    \<lparr>point_x = js_div (js_mul (js_add vx (Fin 1)) W) (Fin 2),
     point_y = js_div (js_mul (js_add (js_neg vy) (Fin 1)) H) (Fin 2),
     point_z = vz\<rparr>"

function projectToSVG_loop ::
  "(jsnum option \<times> jsnum option \<times> jsnum option \<Rightarrow> jsnum \<times> jsnum \<times> jsnum) \<Rightarrow>
   jsnum \<Rightarrow> jsnum \<Rightarrow> jsnum list \<Rightarrow> nat \<Rightarrow> point list \<Rightarrow> point list" where
  "projectToSVG_loop project W H vs i points =
    (if i < length vs then
       (let vector = project (array_get vs i, array_get vs (i + 1), array_get vs (i + 2))
        in projectToSVG_loop project W H vs (i + 3) (points @ [svg_point W H vector]))
     else points)"
  by pat_completeness auto
termination
  by (relation "measure (\<lambda>(project, W, H, vs, i, points). length vs - i)") auto

definition projectToSVG ::
  "(jsnum option \<times> jsnum option \<times> jsnum option \<Rightarrow> jsnum \<times> jsnum \<times> jsnum) \<Rightarrow>
   jsnum \<Rightarrow> jsnum \<Rightarrow> jsnum list \<Rightarrow> point list" where
  "projectToSVG project W H vs = projectToSVG_loop project W H vs 0 []"

section \<open>Visibility and path emission\<close>

datatype error = TypeError

text \<open>
  \<open>isTriangleVisible(a, b, c)\<close>. An argument is \<open>undefined\<close> when \<open>points\<close> has no such
  element; reading \<open>.z\<close> of it throws. \<open>&&\<close> evaluates left to right and stops at the
  first false operand.
\<close>

definition isTriangleVisible ::
  "point option \<Rightarrow> point option \<Rightarrow> point option \<Rightarrow> error + bool" where
  "isTriangleVisible a b c =
    (case a of None \<Rightarrow> Inl TypeError
     | Some pa \<Rightarrow>
       if \<not> js_lt (point_z pa) (Fin 1) then Inr False
       else (case b of None \<Rightarrow> Inl TypeError
             | Some pb \<Rightarrow>
               if \<not> js_lt (point_z pb) (Fin 1) then Inr False
               else (case c of None \<Rightarrow> Inl TypeError
                     | Some pc \<Rightarrow> Inr (js_lt (point_z pc) (Fin 1)))))"

text \<open>
  A number written into a template literal. The text of a finite number is the
  parameter \<open>fmt\<close>.
\<close>

fun js_to_string :: "(real \<Rightarrow> string) \<Rightarrow> jsnum \<Rightarrow> string" where
  "js_to_string fmt (Fin r) = fmt r"
| "js_to_string fmt PInf = ''Infinity''"
| "js_to_string fmt NInf = ''-Infinity''"
| "js_to_string fmt NaN = ''NaN''"

definition path_group :: "(real \<Rightarrow> string) \<Rightarrow> point \<Rightarrow> point \<Rightarrow> point \<Rightarrow> string" where
  "path_group fmt a b c =
    ''M'' @ js_to_string fmt (point_x a) @ '','' @ js_to_string fmt (point_y a) @
    '' L'' @ js_to_string fmt (point_x b) @ '','' @ js_to_string fmt (point_y b) @
    '' L'' @ js_to_string fmt (point_x c) @ '','' @ js_to_string fmt (point_y c) @ '' Z ''"

text \<open>
  \<open>generateSVG(points)\<close>. \<open>point_at\<close> is \<open>points[indices[i]]\<close>. The template literal is
  evaluated only after the visibility test returned true, when the three points are
  defined.
\<close>

definition point_at :: "point list \<Rightarrow> nat list \<Rightarrow> nat \<Rightarrow> point option" where
  "point_at points inds i =
    (case array_get inds i of None \<Rightarrow> None | Some n \<Rightarrow> array_get points n)"

function generateSVG_loop ::
  "(real \<Rightarrow> string) \<Rightarrow> point list \<Rightarrow> nat list \<Rightarrow> nat \<Rightarrow> string \<Rightarrow> error + string" where
  "generateSVG_loop fmt points inds i paths =
    (if i < length inds then
       (let a = point_at points inds i;
            b = point_at points inds (i + 1);
            c = point_at points inds (i + 2)
        in case isTriangleVisible a b c of
             Inl e \<Rightarrow> Inl e
           | Inr v \<Rightarrow>
               generateSVG_loop fmt points inds (i + 3)
                 (if v then paths @ path_group fmt (the a) (the b) (the c) else paths))
     else Inr paths)"
  by pat_completeness auto
termination
  by (relation "measure (\<lambda>(fmt, points, inds, i, paths). length inds - i)") auto

definition svg_document :: "(real \<Rightarrow> string) \<Rightarrow> jsnum \<Rightarrow> jsnum \<Rightarrow> string \<Rightarrow> string" where
  \<open>svg_document fmt width height paths =
    ''<?xml version="1.0" encoding="UTF-8"?>'' @ [CHR 0x0A] @
    ''            <svg width="'' @ js_to_string fmt width @ ''" height="'' @
    js_to_string fmt height @ ''" xmlns="http://www.w3.org/2000/svg">'' @ [CHR 0x0A] @
    ''                <path d="'' @ paths @
    ''" stroke="black" fill="none" stroke-width="0.5"/>'' @ [CHR 0x0A] @
    ''            </svg>''\<close>

definition generateSVG ::
  "(real \<Rightarrow> string) \<Rightarrow> point list \<Rightarrow> nat list \<Rightarrow> jsnum \<Rightarrow> jsnum \<Rightarrow> error + string" where
  "generateSVG fmt points inds W H =
    (case generateSVG_loop fmt points inds 0 [] of
       Inl e \<Rightarrow> Inl e
     | Inr paths \<Rightarrow> Inr (svg_document fmt W H paths))"

text \<open>The numeric part of \<open>exportSVG()\<close>: project, then emit.\<close>

definition exportSVG ::
  "(real \<Rightarrow> string) \<Rightarrow>
   (jsnum option \<times> jsnum option \<times> jsnum option \<Rightarrow> jsnum \<times> jsnum \<times> jsnum) \<Rightarrow>
   jsnum \<Rightarrow> jsnum \<Rightarrow> jsnum list \<Rightarrow> nat list \<Rightarrow> error + string" where
  "exportSVG fmt project W H vs inds =
    generateSVG fmt (projectToSVG project W H vs) inds W H"

section \<open>Triangles of the index list\<close>

text \<open>
  The index list is read three entries at a time: triangle \<open>k\<close> has its corners at the
  entries \<open>3k\<close>, \<open>3k + 1\<close> and \<open>3k + 2\<close>. \<open>triangle_visible\<close> says that the visibility
  test returned true for triangle \<open>k\<close> (its three points are then defined), and
  \<open>triangle_group\<close> is the path group of its three points.
\<close>

definition triangle_visible :: "point list \<Rightarrow> nat list \<Rightarrow> nat \<Rightarrow> bool" where
  "triangle_visible points inds k \<longleftrightarrow>
     isTriangleVisible (point_at points inds (3 * k)) (point_at points inds (3 * k + 1))
       (point_at points inds (3 * k + 2)) = Inr True"

definition triangle_group :: "(real \<Rightarrow> string) \<Rightarrow> point list \<Rightarrow> nat list \<Rightarrow> nat \<Rightarrow> string" where
  "triangle_group fmt points inds k =
     path_group fmt (the (point_at points inds (3 * k))) (the (point_at points inds (3 * k + 1)))
       (the (point_at points inds (3 * k + 2)))"

section \<open>Inputs for the examples\<close>

text \<open>
  The decimal text of a natural number, and with it the text of an integer. It is what
  JavaScript prints for an integer of magnitude up to \<open>2^53\<close>; for other numbers
  JavaScript prints the shortest digits that read back as the same double, which
  \<open>fmt_integer\<close> does not model. The examples print small integers only.
\<close>

fun show_nat :: "nat \<Rightarrow> string" where
  "show_nat n =
    (if n < 10 then [''0123456789'' ! n] else show_nat (n div 10) @ [''0123456789'' ! (n mod 10)])"

definition fmt_integer :: "real \<Rightarrow> string" where
  "fmt_integer r = (if r < 0 then ''-'' @ show_nat (nat \<lfloor>- r\<rfloor>) else show_nat (nat \<lfloor>r\<rfloor>))"

text \<open>
  A projection for the examples, the library's transform under identity matrices. A
  missing component is 0, the default of the \<open>Vector3\<close> constructor. A vertex of three
  finite numbers is unchanged; any other vertex gives NaN in every component, as the
  sums of products with a zero matrix entry and a NaN or infinite coordinate are.
\<close>

fun vector3_default :: "jsnum option \<Rightarrow> jsnum" where
  "vector3_default None = Fin 0"
| "vector3_default (Some v) = v"

fun finite_or_nan :: "jsnum \<times> jsnum \<times> jsnum \<Rightarrow> jsnum \<times> jsnum \<times> jsnum" where
  "finite_or_nan (Fin x, Fin y, Fin z) = (Fin x, Fin y, Fin z)"
| "finite_or_nan v = (NaN, NaN, NaN)"

fun project_example :: "jsnum option \<times> jsnum option \<times> jsnum option \<Rightarrow> jsnum \<times> jsnum \<times> jsnum" where
  "project_example (a, b, c) =
     finite_or_nan (vector3_default a, vector3_default b, vector3_default c)"

text \<open>
  Four projected points, the last one on the far plane, and an index list of two
  triangles: the first uses the far point, the second does not.
\<close>

definition example_points :: "point list" where
  "example_points =
    [\<lparr>point_x = Fin 1, point_y = Fin 2, point_z = Fin (1 / 2)\<rparr>,
     \<lparr>point_x = Fin 3, point_y = Fin 4, point_z = Fin (1 / 2)\<rparr>,
     \<lparr>point_x = Fin 5, point_y = Fin 6, point_z = Fin (999 / 1000)\<rparr>,
     \<lparr>point_x = Fin 7, point_y = Fin 8, point_z = Fin 1\<rparr>]"

definition example_indices :: "nat list" where
  "example_indices = [0, 1, 3, 0, 1, 2]"

text \<open>
  Three projected points of depth \<open>1/2\<close> with screen coordinates that are not finite, and
  a vertex array of one triangle whose first coordinate is NaN.
\<close>

definition example_nonfinite_points :: "point list" where
  "example_nonfinite_points =
    [\<lparr>point_x = NaN, point_y = Fin 2, point_z = Fin (1 / 2)\<rparr>,
     \<lparr>point_x = PInf, point_y = Fin 4, point_z = Fin (1 / 2)\<rparr>,
     \<lparr>point_x = Fin 5, point_y = NInf, point_z = Fin (1 / 2)\<rparr>]"

definition example_nan_vertices :: "jsnum list" where
  "example_nan_vertices = [NaN, Fin 0, Fin 0, Fin 1, Fin 0, Fin 0, Fin 0, Fin 1, Fin 0]"

text \<open>
  Two triangles over these three vertices: the first has the vertex with the NaN
  coordinate as a corner, the second does not.
\<close>

definition example_two_triangles :: "nat list" where
  "example_two_triangles = [0, 1, 2, 1, 2, 1]"

section \<open>Properties of the height synthesis\<close>

lemma js_add_zero_left: "js_add (Fin 0) v = v"
  by (cases v) simp_all

text \<open>
  C1. For finite \<open>x\<close>, \<open>y\<close> and seed, \<open>generateHeight\<close> returns the plain sum of three noise
  samples: the sample at \<open>(x * 0.5 + seed, y * 0.5 + seed)\<close> times 1.0, the sample at
  \<open>(x * 0.5 * 2 + seed, y * 0.5 * 2 + seed)\<close> times 0.5 and the sample at
  \<open>(x * 0.5 * 4 + seed, y * 0.5 * 4 + seed)\<close> times 0.25, added in this order with no
  normalisation. The noise function is arbitrary.
\<close>

theorem generateHeight_three_octaves:
  "generateHeight nf (Fin sd) (Fin x) (Fin y) =
     js_add
       (js_add
          (js_mul (nf (Fin (x * 0.5 + sd)) (Fin (y * 0.5 + sd))) (Fin 1.0))
          (js_mul (nf (Fin (x * 0.5 * 2 + sd)) (Fin (y * 0.5 * 2 + sd))) (Fin 0.5)))
       (js_mul (nf (Fin (x * 0.5 * 4 + sd)) (Fin (y * 0.5 * 4 + sd))) (Fin 0.25))"
  by (simp add: generateHeight_def Let_def js_add_zero_left)

section \<open>Properties of the visibility test\<close>

lemma js_lt_one_iff: "js_lt v (Fin 1) \<longleftrightarrow> v = NInf \<or> (\<exists>r. v = Fin r \<and> r < 1)"
  by (cases v) simp_all

text \<open>
  C2. On three projected points the visibility test returns true exactly when each of the
  three depths is strictly below 1 (a finite number below 1, or minus infinity; NaN and
  plus infinity are not below 1). Depths (0.5, 0.5, 1.0) give false and depths
  (0.5, 0.5, 0.999) give true, whatever the screen coordinates.
\<close>

theorem isTriangleVisible_depths:
  "isTriangleVisible (Some a) (Some b) (Some c) =
     Inr ((point_z a = NInf \<or> (\<exists>r. point_z a = Fin r \<and> r < 1)) \<and>
          (point_z b = NInf \<or> (\<exists>r. point_z b = Fin r \<and> r < 1)) \<and>
          (point_z c = NInf \<or> (\<exists>r. point_z c = Fin r \<and> r < 1)))
   \<and> isTriangleVisible (Some \<lparr>point_x = ax, point_y = ay, point_z = Fin 0.5\<rparr>)
                        (Some \<lparr>point_x = bx, point_y = by, point_z = Fin 0.5\<rparr>)
                        (Some \<lparr>point_x = cx, point_y = cy, point_z = Fin 1.0\<rparr>) = Inr False
   \<and> isTriangleVisible (Some \<lparr>point_x = ax, point_y = ay, point_z = Fin 0.5\<rparr>)
                        (Some \<lparr>point_x = bx, point_y = by, point_z = Fin 0.5\<rparr>)
                        (Some \<lparr>point_x = cx, point_y = cy, point_z = Fin 0.999\<rparr>) = Inr True"
proof (intro conjI)
  show "isTriangleVisible (Some a) (Some b) (Some c) =
     Inr ((point_z a = NInf \<or> (\<exists>r. point_z a = Fin r \<and> r < 1)) \<and>
          (point_z b = NInf \<or> (\<exists>r. point_z b = Fin r \<and> r < 1)) \<and>
          (point_z c = NInf \<or> (\<exists>r. point_z c = Fin r \<and> r < 1)))"
    unfolding js_lt_one_iff [symmetric] by (simp add: isTriangleVisible_def)
qed (simp_all add: isTriangleVisible_def)

section \<open>Properties of the noise function\<close>

lemma noise2D_env_irrelevant: "noise2D env x y = noise2D env' x y"
  by (simp add: noise2D_def)

text \<open>
  C10. Two noise functions returned by \<open>makeNoise2D\<close> agree at every \<open>(x, y)\<close>, whatever
  the random sources used to build them: the closure does not read the tables it captures.
\<close>

theorem noise2D_independent_of_random:
  "noise2D (makeNoise2D random1) x y = noise2D (makeNoise2D random2) x y"
  by (simp add: noise2D_def)

section \<open>Properties of the projection\<close>

declare projectToSVG_loop.simps [simp del]

lemma projectToSVG_loop_eq:
  "projectToSVG_loop project W H vs (3 * k) acc =
     acc @ map (\<lambda>j. svg_point W H
                 (project (array_get vs (3 * j), array_get vs (3 * j + 1), array_get vs (3 * j + 2))))
               [k..<(length vs + 2) div 3]"
proof (induction "(length vs + 2) div 3 - k" arbitrary: k acc)
  case 0
  then have "\<not> 3 * k < length vs" by linarith
  with 0 show ?case by (simp add: projectToSVG_loop.simps [of _ _ _ _ "3 * k"])
next
  case (Suc n)
  then have lt: "3 * k < length vs" and k: "k < (length vs + 2) div 3" by linarith+
  have n: "n = (length vs + 2) div 3 - Suc k" using Suc.hyps(2) by linarith
  have step: "3 * k + 3 = 3 * Suc k" by simp
  have "projectToSVG_loop project W H vs (3 * k) acc =
          projectToSVG_loop project W H vs (3 * Suc k)
            (acc @ [svg_point W H
               (project (array_get vs (3 * k), array_get vs (3 * k + 1), array_get vs (3 * k + 2)))])"
    using lt by (subst projectToSVG_loop.simps) (simp only: step if_True Let_def)
  also have "\<dots> = (acc @ [svg_point W H
               (project (array_get vs (3 * k), array_get vs (3 * k + 1), array_get vs (3 * k + 2)))]) @
            map (\<lambda>j. svg_point W H
                 (project (array_get vs (3 * j), array_get vs (3 * j + 1), array_get vs (3 * j + 2))))
               [Suc k..<(length vs + 2) div 3]"
    by (rule Suc.hyps(1) [OF n])
  finally show ?case
    by (subst upt_conv_Cons [OF k]) (simp only: list.map append_assoc append_Cons append_Nil)
qed

text \<open>
  C3. The point pushed for vertex \<open>k\<close>, whose normalized device coordinates are
  \<open>(ndcX, ndcY, ndcZ)\<close>, has \<open>x = (ndcX + 1) * W / 2\<close>, \<open>y = (-ndcY + 1) * H / 2\<close> and
  \<open>z = ndcZ\<close>, with \<open>W\<close> and \<open>H\<close> the viewport width and height; there is one point per
  started group of three array elements.
\<close>

theorem projectToSVG_screen_mapping:
  assumes "3 * k < length vs"
    and "project (array_get vs (3 * k), array_get vs (3 * k + 1), array_get vs (3 * k + 2)) =
           (ndcX, ndcY, ndcZ)"
  shows "length (projectToSVG project W H vs) = (length vs + 2) div 3 \<and>
         projectToSVG project W H vs ! k =
           \<lparr>point_x = js_div (js_mul (js_add ndcX (Fin 1)) W) (Fin 2),
            point_y = js_div (js_mul (js_add (js_neg ndcY) (Fin 1)) H) (Fin 2),
            point_z = ndcZ\<rparr>"
proof -
  have k: "k < (length vs + 2) div 3" using assms(1) by linarith
  have "projectToSVG project W H vs =
          map (\<lambda>j. svg_point W H
                 (project (array_get vs (3 * j), array_get vs (3 * j + 1), array_get vs (3 * j + 2))))
              [0..<(length vs + 2) div 3]"
    using projectToSVG_loop_eq [of project W H vs 0 "[]"] by (simp add: projectToSVG_def)
  then show ?thesis using k assms(2) by simp
qed

theorem projectToSVG_screen_mapping_witness:
  "3 * 0 < length [Fin 0, Fin (1 / 2), Fin (1 / 4)] \<and>
   projectToSVG (\<lambda>(a, b, c). (to_number a, to_number b, to_number c)) (Fin 800) (Fin 600)
       [Fin 0, Fin (1 / 2), Fin (1 / 4)] ! 0 =
     \<lparr>point_x = Fin 400, point_y = Fin 150, point_z = Fin (1 / 4)\<rparr>"
  using projectToSVG_screen_mapping
    [of 0 "[Fin 0, Fin (1 / 2), Fin (1 / 4)]" "\<lambda>(a, b, c). (to_number a, to_number b, to_number c)"
        "Fin 0" "Fin (1 / 2)" "Fin (1 / 4)" "Fin 800" "Fin 600"]
  by (simp add: array_get_def)

section \<open>Properties of the terrain update\<close>

declare updateTerrain_loop.simps [simp del]

lemma length_updateTerrain_loop: "length (updateTerrain_loop nf sd i vs) = length vs"
proof (induction nf sd i vs rule: updateTerrain_loop.induct)
  case (1 nf sd i vs)
  show ?case
  proof (cases "i < length vs")
    case True
    with 1 show ?thesis
      by (subst updateTerrain_loop.simps) (simp add: Let_def typed_set_def)
  next
    case False
    then show ?thesis by (subst updateTerrain_loop.simps) simp
  qed
qed

lemma updateTerrain_loop_other:
  "j mod 3 \<noteq> 2 \<Longrightarrow> i mod 3 = 0 \<Longrightarrow> updateTerrain_loop nf sd i vs ! j = vs ! j"
proof (induction nf sd i vs rule: updateTerrain_loop.induct)
  case (1 nf sd i vs)
  show ?case
  proof (cases "i < length vs")
    case True
    have ne: "i + 2 \<noteq> j" using "1.prems" by presburger
    have m: "(i + 3) mod 3 = 0" using "1.prems" by presburger
    have "updateTerrain_loop nf sd i vs ! j =
          typed_set vs (i + 2)
            (generateHeight nf sd (to_number (array_get vs i)) (to_number (array_get vs (i + 1)))) ! j"
      using True "1.IH" [OF True refl refl "1.prems"(1) m]
      by (subst updateTerrain_loop.simps) (simp add: Let_def)
    also have "\<dots> = vs ! j" using ne by (simp add: typed_set_def)
    finally show ?thesis .
  next
    case False
    then show ?thesis by (subst updateTerrain_loop.simps) simp
  qed
qed

lemma updateTerrain_loop_before:
  "j < i \<Longrightarrow> updateTerrain_loop nf sd i vs ! j = vs ! j"
proof (induction nf sd i vs rule: updateTerrain_loop.induct)
  case (1 nf sd i vs)
  show ?case
  proof (cases "i < length vs")
    case True
    have "updateTerrain_loop nf sd i vs ! j =
          typed_set vs (i + 2)
            (generateHeight nf sd (to_number (array_get vs i)) (to_number (array_get vs (i + 1)))) ! j"
      using True "1.IH" [OF True refl refl] "1.prems"
      by (subst updateTerrain_loop.simps) (simp add: Let_def)
    also have "\<dots> = vs ! j" using "1.prems" by (simp add: typed_set_def)
    finally show ?thesis .
  next
    case False
    then show ?thesis by (subst updateTerrain_loop.simps) simp
  qed
qed

lemma updateTerrain_loop_height:
  "i mod 3 = 0 \<Longrightarrow> i \<le> 3 * k \<Longrightarrow> 3 * k + 2 < length vs \<Longrightarrow>
   updateTerrain_loop nf sd i vs ! (3 * k + 2) =
     generateHeight nf sd (vs ! (3 * k)) (vs ! (3 * k + 1))"
proof (induction nf sd i vs rule: updateTerrain_loop.induct)
  case (1 nf sd i vs)
  let ?h = "generateHeight nf sd (to_number (array_get vs i)) (to_number (array_get vs (i + 1)))"
  let ?vs = "typed_set vs (i + 2) ?h"
  have lt: "i < length vs" using "1.prems" by linarith
  have unfold: "updateTerrain_loop nf sd i vs = updateTerrain_loop nf sd (i + 3) ?vs"
    using lt by (subst updateTerrain_loop.simps) (simp add: Let_def)
  have len: "length ?vs = length vs" by (simp add: typed_set_def)
  show ?case
  proof (cases "i = 3 * k")
    case True
    have "updateTerrain_loop nf sd (i + 3) ?vs ! (3 * k + 2) = ?vs ! (3 * k + 2)"
      using True by (intro updateTerrain_loop_before) simp
    also have "\<dots> = ?h" using True "1.prems" by (simp add: typed_set_def)
    also have "\<dots> = generateHeight nf sd (vs ! (3 * k)) (vs ! (3 * k + 1))"
      using True "1.prems" by (simp add: array_get_def)
    finally show ?thesis using unfold by simp
  next
    case False
    have m: "(i + 3) mod 3 = 0" using "1.prems" by presburger
    have le: "i + 3 \<le> 3 * k" using False "1.prems" by presburger
    have "updateTerrain_loop nf sd (i + 3) ?vs ! (3 * k + 2) =
            generateHeight nf sd (?vs ! (3 * k)) (?vs ! (3 * k + 1))"
      using "1.IH" [OF lt refl refl m le] "1.prems" len by simp
    also have "\<dots> = generateHeight nf sd (vs ! (3 * k)) (vs ! (3 * k + 1))"
      using le by (simp add: typed_set_def)
    finally show ?thesis using unfold by simp
  qed
qed

lemma updateTerrain_fields:
  "indices (updateTerrain st) = indices st"
  "seed (updateTerrain st) = seed st"
  "noise (updateTerrain st) = noise st"
  "camera (updateTerrain st) = camera st"
  "length (vertices (updateTerrain st)) = length (vertices st)"
  by (simp_all add: updateTerrain_def length_updateTerrain_loop)

lemma updateTerrain_xy:
  "j mod 3 \<noteq> 2 \<Longrightarrow> vertices (updateTerrain st) ! j = vertices st ! j"
  by (simp add: updateTerrain_def updateTerrain_loop_other)

lemma generateNewMap_fields:
  "indices (generateNewMap r st) = indices st"
  "seed (generateNewMap r st) = js_mul r (Fin 1000)"
  "noise (generateNewMap r st) = noise st"
  "camera (generateNewMap r st) = camera st"
  "length (vertices (generateNewMap r st)) = length (vertices st)"
  by (simp_all add: generateNewMap_def updateTerrain_fields)

lemma generateNewMap_xy:
  "j mod 3 \<noteq> 2 \<Longrightarrow> vertices (generateNewMap r st) ! j = vertices st ! j"
  by (simp add: generateNewMap_def updateTerrain_xy)

lemma funpow_updateTerrain:
  "indices ((updateTerrain ^^ n) st) = indices st \<and>
   length (vertices ((updateTerrain ^^ n) st)) = length (vertices st) \<and>
   (\<forall>j. j mod 3 \<noteq> 2 \<longrightarrow> vertices ((updateTerrain ^^ n) st) ! j = vertices st ! j)"
  by (induction n) (simp_all add: updateTerrain_fields updateTerrain_xy)

lemma fold_generateNewMap:
  "indices (fold generateNewMap rs st) = indices st \<and>
   length (vertices (fold generateNewMap rs st)) = length (vertices st) \<and>
   (\<forall>j. j mod 3 \<noteq> 2 \<longrightarrow> vertices (fold generateNewMap rs st) ! j = vertices st ! j)"
  by (induction rs arbitrary: st) (simp_all add: generateNewMap_fields generateNewMap_xy)

lemma array_get_cong:
  "length xs = length ys \<Longrightarrow> xs ! j = ys ! j \<Longrightarrow> array_get xs j = array_get ys j"
  by (simp add: array_get_def)

text \<open>
  C5. Repopulating the heights any number of times in a row, with \<open>updateTerrain\<close> or with
  \<open>generateNewMap\<close> under any sequence of random draws, leaves the triangle index list, the
  number of vertex components and the \<open>x\<close> and \<open>y\<close> component of every vertex as they were:
  only \<open>z\<close> components can differ.
\<close>

theorem repopulation_keeps_topology:
  "indices ((updateTerrain ^^ n) st) = indices st \<and>
   length (vertices ((updateTerrain ^^ n) st)) = length (vertices st) \<and>
   array_get (vertices ((updateTerrain ^^ n) st)) (3 * k) = array_get (vertices st) (3 * k) \<and>
   array_get (vertices ((updateTerrain ^^ n) st)) (3 * k + 1) = array_get (vertices st) (3 * k + 1) \<and>
   indices (fold generateNewMap rs st) = indices st \<and>
   length (vertices (fold generateNewMap rs st)) = length (vertices st) \<and>
   array_get (vertices (fold generateNewMap rs st)) (3 * k) = array_get (vertices st) (3 * k) \<and>
   array_get (vertices (fold generateNewMap rs st)) (3 * k + 1) = array_get (vertices st) (3 * k + 1)"
proof -
  have m: "(3 * k) mod 3 \<noteq> 2" "(3 * k + 1) mod 3 \<noteq> 2" by presburger+
  note u = funpow_updateTerrain [of n st] and g = fold_generateNewMap [of rs st]
  show ?thesis
    using u g m by (auto intro!: array_get_cong)
qed

text \<open>
  C6, as the code has it. \<open>generateNewMap\<close> sets the seed to the random draw times 1000 and
  recomputes the height of every complete vertex from its unchanged \<open>x\<close> and \<open>y\<close>, with the
  new seed and with the noise function built at construction: the noise function and its
  tables are kept, not rebuilt. The index list, the camera, the number of vertex components
  and every \<open>x\<close> and \<open>y\<close> stay as they were.
\<close>

theorem generateNewMap_effect:
  "seed (generateNewMap r st) = js_mul r (Fin 1000) \<and>
   noise (generateNewMap r st) = noise st \<and>
   indices (generateNewMap r st) = indices st \<and>
   camera (generateNewMap r st) = camera st \<and>
   length (vertices (generateNewMap r st)) = length (vertices st) \<and>
   array_get (vertices (generateNewMap r st)) (3 * k) = array_get (vertices st) (3 * k) \<and>
   array_get (vertices (generateNewMap r st)) (3 * k + 1) = array_get (vertices st) (3 * k + 1) \<and>
   (3 * k + 2 < length (vertices st) \<longrightarrow>
      vertices (generateNewMap r st) ! (3 * k + 2) =
        generateHeight (noise2D (noise st)) (js_mul r (Fin 1000))
          (vertices st ! (3 * k)) (vertices st ! (3 * k + 1)))"
proof -
  have m: "(3 * k) mod 3 \<noteq> 2" "(3 * k + 1) mod 3 \<noteq> 2" by presburger+
  have xy: "array_get (vertices (generateNewMap r st)) (3 * k) = array_get (vertices st) (3 * k)"
    "array_get (vertices (generateNewMap r st)) (3 * k + 1) = array_get (vertices st) (3 * k + 1)"
    using m by (auto intro!: array_get_cong simp: generateNewMap_fields generateNewMap_xy)
  have z: "3 * k + 2 < length (vertices st) \<Longrightarrow>
      vertices (generateNewMap r st) ! (3 * k + 2) =
        generateHeight (noise2D (noise st)) (js_mul r (Fin 1000))
          (vertices st ! (3 * k)) (vertices st ! (3 * k + 1))"
    using updateTerrain_loop_height [of 0 k "vertices st" "noise2D (noise st)" "js_mul r (Fin 1000)"]
    by (simp add: generateNewMap_def updateTerrain_def)
  show ?thesis using xy z by (simp add: generateNewMap_fields)
qed

theorem generateNewMap_effect_witness:
  "3 * 0 + 2 < length (vertices \<lparr>seed = Fin 7, noise = makeNoise2D (\<lambda>k. Fin 0),
       vertices = [Fin 1, Fin 2, Fin 0], indices = [0, 0, 0], needsUpdate = False, camera = ()\<rparr>) \<and>
   vertices (generateNewMap (Fin (1 / 2)) \<lparr>seed = Fin 7, noise = makeNoise2D (\<lambda>k. Fin 0),
       vertices = [Fin 1, Fin 2, Fin 0], indices = [0, 0, 0], needsUpdate = False, camera = ()\<rparr>) ! (3 * 0 + 2) =
     generateHeight (noise2D (makeNoise2D (\<lambda>k. Fin 0))) (Fin 500) (Fin 1) (Fin 2) \<and>
   seed (generateNewMap (Fin (1 / 2)) \<lparr>seed = Fin 7, noise = makeNoise2D (\<lambda>k. Fin 0),
       vertices = [Fin 1, Fin 2, Fin 0], indices = [0, 0, 0], needsUpdate = False, camera = ()\<rparr>) = Fin 500"
  using generateNewMap_effect [of "Fin (1 / 2)" "\<lparr>seed = Fin 7, noise = makeNoise2D (\<lambda>k. Fin 0),
       vertices = [Fin 1, Fin 2, Fin 0], indices = [0, 0, 0], needsUpdate = False, camera = ()\<rparr>" 0]
  by simp

text \<open>
  C6 as stated fails: the table is not rebuilt from the new seed. Two regenerations of one
  object with different draws give different seeds and the same noise function, the one the
  object had before.
\<close>

theorem generateNewMap_keeps_table_counterexample:
  "seed (generateNewMap (Fin (1 / 4)) \<lparr>seed = Fin 7, noise = makeNoise2D (\<lambda>k. Fin 0),
       vertices = [Fin 1, Fin 2, Fin 0], indices = [0, 0, 0], needsUpdate = False, camera = ()\<rparr>) = Fin 250 \<and>
   seed (generateNewMap (Fin (1 / 2)) \<lparr>seed = Fin 7, noise = makeNoise2D (\<lambda>k. Fin 0),
       vertices = [Fin 1, Fin 2, Fin 0], indices = [0, 0, 0], needsUpdate = False, camera = ()\<rparr>) = Fin 500 \<and>
   noise (generateNewMap (Fin (1 / 4)) \<lparr>seed = Fin 7, noise = makeNoise2D (\<lambda>k. Fin 0),
       vertices = [Fin 1, Fin 2, Fin 0], indices = [0, 0, 0], needsUpdate = False, camera = ()\<rparr>) =
     makeNoise2D (\<lambda>k. Fin 0) \<and>
   noise (generateNewMap (Fin (1 / 2)) \<lparr>seed = Fin 7, noise = makeNoise2D (\<lambda>k. Fin 0),
       vertices = [Fin 1, Fin 2, Fin 0], indices = [0, 0, 0], needsUpdate = False, camera = ()\<rparr>) =
     makeNoise2D (\<lambda>k. Fin 0)"
  by (simp add: generateNewMap_def updateTerrain_def)

section \<open>Properties of the permutation table\<close>

lemma and_255: "(i::nat) AND 255 = i mod 256"
proof -
  have "(255::nat) = mask 8" by (simp add: mask_eq_exp_minus_1)
  then show ?thesis by (simp only: take_bit_eq_mask [symmetric] take_bit_eq_mod) simp
qed

lemma fold_typed_set:
  "m \<le> length xs \<Longrightarrow>
   fold (\<lambda>i p. typed_set p i (f i)) [0..<m] xs = map f [0..<m] @ drop m xs"
proof (induction m)
  case 0
  then show ?case by simp
next
  case (Suc m)
  then have lt: "m < length xs" by simp
  have "fold (\<lambda>i p. typed_set p i (f i)) [0..<Suc m] xs =
        typed_set (map f [0..<m] @ drop m xs) m (f m)"
    using Suc by simp
  also have "\<dots> = map f [0..<m] @ (drop m xs)[0 := f m]"
    using lt by (simp add: typed_set_def list_update_append)
  also have "drop m xs = xs ! m # drop (Suc m) xs"
    using lt by (simp add: Cons_nth_drop_Suc)
  finally show ?case by simp
qed

lemma identity_table_eq: "identity_table = [0..<256]"
proof -
  have "identity_table = map (\<lambda>i. i mod 256) [0..<256] @ drop 256 (replicate 256 (0::nat))"
    unfolding identity_table_def u8_set_def to_uint8.simps
    by (rule fold_typed_set) simp
  also have "map (\<lambda>i. i mod 256) [0..<256] = map (\<lambda>i. i) [0..<256]"
    by (rule map_cong) auto
  finally show ?thesis by simp
qed


lemma shuffle_length: "length (shuffle rnd i k p) = length p"
  by (induction i arbitrary: k p)
     (simp_all add: Let_def u8_set_def u8_set_num_def typed_set_def split: option.splits)

lemma draw_index:
  assumes "0 \<le> r" "r < 1"
  shows "array_index (js_floor (js_mul (Fin (real (i + 1))) (Fin r))) =
           Some (nat \<lfloor>real (i + 1) * r\<rfloor>)"
    and "nat \<lfloor>real (i + 1) * r\<rfloor> \<le> i"
proof -
  have nonneg: "0 \<le> real (i + 1) * r" using assms by simp
  then show "array_index (js_floor (js_mul (Fin (real (i + 1))) (Fin r))) =
           Some (nat \<lfloor>real (i + 1) * r\<rfloor>)"
    by simp
  have "real (i + 1) * r < real (i + 1)" using assms by simp
  then have "\<lfloor>real (i + 1) * r\<rfloor> < int (i + 1)" by (simp add: floor_less_iff)
  then show "nat \<lfloor>real (i + 1) * r\<rfloor> \<le> i" by linarith
qed

lemma shuffle_step:
  assumes r: "rnd k = Fin r" "0 \<le> r" "r < 1"
    and i: "Suc i < length p"
    and small: "\<forall>v \<in> set p. v < 256"
  shows "\<exists>m. m \<le> Suc i \<and>
           shuffle rnd (Suc i) k p = shuffle rnd i (Suc k) (p[Suc i := p ! m, m := p ! Suc i])"
proof -
  define m where "m = nat \<lfloor>real (Suc i + 1) * r\<rfloor>"
  let ?n = "js_floor (js_mul (Fin (real (Suc i + 1))) (rnd k))"
  have idx: "array_index ?n = Some m"
    unfolding r(1) m_def by (rule draw_index(1) [OF r(2,3)])
  have m: "m \<le> Suc i"
    unfolding m_def by (rule draw_index(2) [OF r(2,3)])
  have mlt: "m < length p" using m i by simp
  have lt256: "p ! m < 256" "p ! Suc i < 256" using small mlt i by simp_all
  have get: "u8_get_num p ?n = Some (p ! m)"
    using mlt by (simp only: u8_get_num_def idx option.case array_get_def if_True)
  have q: "array_get p (Suc i) = Some (p ! Suc i)"
    using i by (simp only: array_get_def if_True)
  have p1: "u8_set p (Suc i) (Some (p ! m)) = p[Suc i := p ! m]"
    using i lt256 by (simp add: u8_set_def typed_set_def)
  have p2: "u8_set_num (p[Suc i := p ! m]) ?n (Some (p ! Suc i)) =
              p[Suc i := p ! m, m := p ! Suc i]"
    using mlt lt256 by (simp only: u8_set_num_def idx option.case) (simp add: u8_set_def typed_set_def)
  have "shuffle rnd (Suc i) k p = shuffle rnd i (Suc k) (p[Suc i := p ! m, m := p ! Suc i])"
    by (simp only: shuffle.simps Let_def get q p1 p2)
  with m show ?thesis by blast
qed

lemma shuffle_mset:
  assumes draws: "\<forall>k. \<exists>r. rnd k = Fin r \<and> 0 \<le> r \<and> r < 1"
  shows "i < length p \<Longrightarrow> \<forall>v \<in> set p. v < 256 \<Longrightarrow> mset (shuffle rnd i k p) = mset p"
proof (induction i arbitrary: k p)
  case 0
  then show ?case by simp
next
  case (Suc i)
  obtain r where r: "rnd k = Fin r" "0 \<le> r" "r < 1" using draws by blast
  obtain m where m: "m \<le> Suc i"
    and step: "shuffle rnd (Suc i) k p =
                 shuffle rnd i (Suc k) (p[Suc i := p ! m, m := p ! Suc i])"
    using shuffle_step [of rnd k r i p] r Suc.prems by blast
  define p2 where "p2 = p[Suc i := p ! m, m := p ! Suc i]"
  have mlt: "m < length p" using m Suc.prems(1) by simp
  have p2: "mset p2 = mset p" "length p2 = length p"
    unfolding p2_def using mset_swap [OF mlt Suc.prems(1)] by simp_all
  have "\<forall>v \<in> set p2. v < 256"
    using Suc.prems(2) p2(1) by (metis set_mset_mset)
  moreover have "i < length p2" using Suc.prems(1) p2(2) by simp
  ultimately have "mset (shuffle rnd i (Suc k) p2) = mset p2" by (rule Suc.IH [rotated])
  then show ?case using step p2(1) by (simp add: p2_def)
qed

lemma fill_tables_fold:
  "m \<le> length xs \<Longrightarrow> m \<le> length ys \<Longrightarrow>
   fold (\<lambda>i (perm, permMod12).
            let perm' = u8_set perm i (array_get p (i AND 255));
                permMod12' = u8_set permMod12 i (map_option (\<lambda>v. v mod 12) (array_get perm' i))
            in (perm', permMod12'))
        [0..<m] (xs, ys) =
     (map (\<lambda>i. to_uint8 (array_get p (i AND 255))) [0..<m] @ drop m xs,
      map (\<lambda>i. to_uint8 (array_get p (i AND 255)) mod 12) [0..<m] @ drop m ys)"
  (is "_ \<Longrightarrow> _ \<Longrightarrow> fold ?step _ _ = (map ?g _ @ _, map ?h _ @ _)")
proof (induction m)
  case 0
  then show ?case by simp
next
  case (Suc m)
  then have lt: "m < length xs" "m < length ys" by simp_all
  have dx: "drop m xs = xs ! m # drop (Suc m) xs" and dy: "drop m ys = ys ! m # drop (Suc m) ys"
    using lt by (simp_all add: Cons_nth_drop_Suc)
  have small: "?g m mod 12 mod 256 = ?g m mod 12"
    by (rule mod_less) (simp add: less_trans [OF mod_less_divisor])
  have IH: "fold ?step [0..<m] (xs, ys) = (map ?g [0..<m] @ drop m xs, map ?h [0..<m] @ drop m ys)"
    using Suc by simp
  have one: "?step m (map ?g [0..<m] @ a # as, map ?h [0..<m] @ b # bs) =
               (map ?g [0..<m] @ ?g m # as, map ?h [0..<m] @ ?h m # bs)" for a as b bs
    by (simp add: Let_def u8_set_def typed_set_def array_get_def list_update_append nth_append small)
  have "fold ?step [0..<Suc m] (xs, ys) = ?step m (fold ?step [0..<m] (xs, ys))"
    by (simp only: upt_Suc_append [OF le0] fold_append fold_simps comp_apply)
  also have "\<dots> = (map ?g [0..<m] @ ?g m # drop (Suc m) xs, map ?h [0..<m] @ ?h m # drop (Suc m) ys)"
    unfolding IH dx dy by (rule one)
  finally show ?case by simp
qed

lemma perm_makeNoise2D:
  "perm (makeNoise2D rnd) =
     map (\<lambda>i. to_uint8 (array_get (shuffle rnd 255 0 identity_table) (i AND 255))) [0..<512]"
  using fill_tables_fold [of 512 "replicate 512 0" "replicate 512 0"
                             "shuffle rnd 255 0 identity_table"]
  by (simp add: makeNoise2D_def fill_tables_def)


lemma to_uint8_lt: "to_uint8 v < 256"
  by (cases v) simp_all

text \<open>
  C7. The table \<open>perm\<close> built by \<open>makeNoise2D\<close> has 512 entries, each in \<open>[0, 255]\<close>, and its
  second 256 entries repeat the first 256, for any random source. When every draw of the
  source lies in \<open>[0, 1)\<close>, as \<open>Math.random\<close> promises, the first 256 entries are a
  permutation of \<open>0 .. 255\<close> and every value of \<open>[0, 255]\<close> occurs exactly twice in the table.
\<close>

theorem makeNoise2D_perm_table:
  "length (perm (makeNoise2D rnd)) = 512 \<and>
   list_all (\<lambda>v. v < 256) (perm (makeNoise2D rnd)) \<and>
   drop 256 (perm (makeNoise2D rnd)) = take 256 (perm (makeNoise2D rnd)) \<and>
   ((\<forall>k. \<exists>r. rnd k = Fin r \<and> 0 \<le> r \<and> r < 1) \<longrightarrow>
      mset (take 256 (perm (makeNoise2D rnd))) = mset [0..<256] \<and>
      (\<forall>v. v < 256 \<longrightarrow> count_list (perm (makeNoise2D rnd)) v = 2))"
proof -
  define p where "p = shuffle rnd 255 0 identity_table"
  define g where "g = (\<lambda>i. to_uint8 (array_get p (i AND 255)))"
  have tbl: "perm (makeNoise2D rnd) = map g [0..<512]"
    unfolding g_def p_def by (rule perm_makeNoise2D)
  have len: "length (perm (makeNoise2D rnd)) = 512" by (simp add: tbl)
  have range: "list_all (\<lambda>v. v < 256) (perm (makeNoise2D rnd))"
    by (simp add: tbl list_all_iff g_def to_uint8_lt)
  have shift: "g (i + 256) = g i" for i by (simp add: g_def and_255)
  have dup: "drop 256 (perm (makeNoise2D rnd)) = take 256 (perm (makeNoise2D rnd))"
  proof (rule nth_equalityI)
    show "length (drop 256 (perm (makeNoise2D rnd))) = length (take 256 (perm (makeNoise2D rnd)))"
      by (simp add: len)
  next
    fix i assume "i < length (drop 256 (perm (makeNoise2D rnd)))"
    then have i: "i < 256" by (simp add: len)
    then have "drop 256 (map g [0..<512]) ! i = g (i + 256)" by (simp add: add.commute)
    moreover have "take 256 (map g [0..<512]) ! i = g i" using i by simp
    ultimately show "drop 256 (perm (makeNoise2D rnd)) ! i = take 256 (perm (makeNoise2D rnd)) ! i"
      by (simp only: tbl shift)
  qed
  have perm_ok: "mset (take 256 (perm (makeNoise2D rnd))) = mset [0..<256] \<and>
      (\<forall>v. v < 256 \<longrightarrow> count_list (perm (makeNoise2D rnd)) v = 2)"
    if draws: "\<forall>k. \<exists>r. rnd k = Fin r \<and> 0 \<le> r \<and> r < 1"
  proof -
    have plen: "length p = 256" by (simp add: p_def shuffle_length identity_table_eq)
    have pm: "mset p = mset [0..<256]"
      unfolding p_def using shuffle_mset [OF draws, of 255 identity_table 0]
      by (simp add: identity_table_eq)
    have pset: "set p = {0..<256}" using pm by (metis set_mset_mset set_upt)
    have gi: "g i = p ! i" if "i < 256" for i
    proof -
      have "p ! i \<in> set p" using that plen by simp
      then have "p ! i < 256" using pset by simp
      then show ?thesis using that plen by (simp add: g_def and_255 array_get_def)
    qed
    have first: "take 256 (perm (makeNoise2D rnd)) = p"
    proof (rule nth_equalityI)
      show "length (take 256 (perm (makeNoise2D rnd))) = length p" by (simp add: len plen)
    next
      fix i assume "i < length (take 256 (perm (makeNoise2D rnd)))"
      then have i: "i < 256" by (simp add: len)
      then show "take 256 (perm (makeNoise2D rnd)) ! i = p ! i" by (simp add: tbl gi)
    qed
    have whole: "perm (makeNoise2D rnd) = p @ p"
      using append_take_drop_id [of 256 "perm (makeNoise2D rnd)"] dup first by simp
    have cnt: "count_list (perm (makeNoise2D rnd)) v = 2" if "v < 256" for v
    proof -
      have "count (mset [0..<256]) v = 1"
        using that distinct_count_atmost_1 [of "[0..<256]"] by simp
      then have "count (mset (p @ p)) v = 2" by (simp add: pm)
      then show ?thesis by (simp only: whole count_mset)
    qed
    show ?thesis using first pm cnt by simp
  qed
  show ?thesis using len range dup perm_ok by blast
qed

theorem makeNoise2D_perm_table_witness:
  "(\<forall>k. \<exists>r. (\<lambda>k. Fin (1 / 2)) k = Fin r \<and> 0 \<le> r \<and> r < 1) \<and>
   mset (take 256 (perm (makeNoise2D (\<lambda>k. Fin (1 / 2))))) = mset [0..<256] \<and>
   count_list (perm (makeNoise2D (\<lambda>k. Fin (1 / 2)))) 7 = 2"
proof -
  have h: "\<forall>k. \<exists>r. (\<lambda>k. Fin (1 / 2)) k = Fin r \<and> 0 \<le> r \<and> (r :: real) < 1"
    by (intro allI exI [of _ "1 / 2"]) simp
  show ?thesis using h makeNoise2D_perm_table [of "\<lambda>k. Fin (1 / 2)"] by simp
qed

section \<open>Range of the height\<close>



section \<open>Properties of the path emission\<close>

declare show_nat.simps [simp del]
declare generateSVG_loop.simps [simp del]

lemma isTriangleVisible_True_defined:
  "isTriangleVisible a b c = Inr True \<Longrightarrow> a \<noteq> None \<and> b \<noteq> None \<and> c \<noteq> None"
  by (auto simp: isTriangleVisible_def split: option.splits if_splits)

lemma isTriangleVisible_defined:
  "isTriangleVisible (Some a) (Some b) (Some c) =
     Inr (js_lt (point_z a) (Fin 1) \<and> js_lt (point_z b) (Fin 1) \<and> js_lt (point_z c) (Fin 1))"
  by (simp add: isTriangleVisible_def)

lemma generateSVG_loop_paths:
  "generateSVG_loop fmt points inds (3 * k) acc = Inr paths \<Longrightarrow>
   paths = acc @ concat (map (triangle_group fmt points inds)
                          (filter (triangle_visible points inds) [k..<(length inds + 2) div 3]))"
proof (induction "(length inds + 2) div 3 - k" arbitrary: k acc)
  case 0
  then have "\<not> 3 * k < length inds" by linarith
  with 0 show ?case by (simp add: generateSVG_loop.simps [of _ _ _ "3 * k"])
next
  case (Suc n)
  then have lt: "3 * k < length inds" and k: "k < (length inds + 2) div 3" by linarith+
  have n: "n = (length inds + 2) div 3 - Suc k" using Suc.hyps(2) by linarith
  have step: "3 * k + 3 = 3 * Suc k" by simp
  let ?a = "point_at points inds (3 * k)"
  let ?b = "point_at points inds (3 * k + 1)"
  let ?c = "point_at points inds (3 * k + 2)"
  let ?rest = "concat (map (triangle_group fmt points inds)
                 (filter (triangle_visible points inds) [Suc k..<(length inds + 2) div 3]))"
  have unfold: "generateSVG_loop fmt points inds (3 * k) acc =
      (case isTriangleVisible ?a ?b ?c of
         Inl e \<Rightarrow> Inl e
       | Inr v \<Rightarrow> generateSVG_loop fmt points inds (3 * Suc k)
                   (if v then acc @ path_group fmt (the ?a) (the ?b) (the ?c) else acc))"
    using lt by (subst generateSVG_loop.simps) (simp only: step if_True Let_def)
  obtain v where v: "isTriangleVisible ?a ?b ?c = Inr v"
    using Suc.prems unfold by (cases "isTriangleVisible ?a ?b ?c") simp_all
  have vis: "triangle_visible points inds k \<longleftrightarrow> v" unfolding triangle_visible_def v by simp
  have "generateSVG_loop fmt points inds (3 * Suc k)
          (if v then acc @ path_group fmt (the ?a) (the ?b) (the ?c) else acc) = Inr paths"
    using Suc.prems unfold v by simp
  then have "paths = (if v then acc @ path_group fmt (the ?a) (the ?b) (the ?c) else acc) @ ?rest"
    by (rule Suc.hyps(1) [OF n])
  then show ?case
    by (subst upt_conv_Cons [OF k]) (simp add: vis triangle_group_def)
qed

lemma partial_triangle_hidden:
  assumes "length inds div 3 \<le> k"
  shows "\<not> triangle_visible points inds k"
proof
  assume "triangle_visible points inds k"
  then have "point_at points inds (3 * k + 2) \<noteq> None"
    unfolding triangle_visible_def by (blast dest: isTriangleVisible_True_defined)
  then have "3 * k + 2 < length inds"
    by (auto simp: point_at_def array_get_def split: if_splits)
  with assms show False by linarith
qed

lemma visible_triangles_complete:
  "filter (triangle_visible points inds) [0..<(length inds + 2) div 3] =
   filter (triangle_visible points inds) [0..<length inds div 3]"
proof -
  have le: "length inds div 3 \<le> (length inds + 2) div 3" by linarith
  have "[0..<(length inds + 2) div 3] =
          [0..<length inds div 3] @ [length inds div 3..<(length inds + 2) div 3]"
    using le by (metis le0 upt_add_eq_append le_add_diff_inverse)
  moreover have "filter (triangle_visible points inds)
                   [length inds div 3..<(length inds + 2) div 3] = []"
    by (simp add: filter_empty_conv partial_triangle_hidden)
  ultimately show ?thesis by simp
qed

lemma point_at_defined:
  "i < length inds \<Longrightarrow> \<forall>n \<in> set inds. n < length points \<Longrightarrow>
   point_at points inds i = Some (points ! (inds ! i))"
  by (simp add: point_at_def array_get_def)

lemma generateSVG_loop_total:
  "3 dvd length inds \<Longrightarrow> \<forall>n \<in> set inds. n < length points \<Longrightarrow> i mod 3 = 0 \<Longrightarrow>
   \<exists>paths. generateSVG_loop fmt points inds i acc = Inr paths"
proof (induction fmt points inds i acc rule: generateSVG_loop.induct)
  case (1 fmt points inds i paths)
  show ?case
  proof (cases "i < length inds")
    case False
    then show ?thesis by (subst generateSVG_loop.simps) simp
  next
    case True
    have lt: "i + 1 < length inds" "i + 2 < length inds"
      using True "1.prems"(1,3) by presburger+
    have m: "(i + 3) mod 3 = 0" using "1.prems"(3) by presburger
    let ?a = "point_at points inds i"
    let ?b = "point_at points inds (i + 1)"
    let ?c = "point_at points inds (i + 2)"
    have abc: "?a = Some (points ! (inds ! i))" "?b = Some (points ! (inds ! (i + 1)))"
      "?c = Some (points ! (inds ! (i + 2)))"
      using True lt "1.prems"(2) by (simp_all only: point_at_defined)
    obtain v where v: "isTriangleVisible ?a ?b ?c = Inr v"
      unfolding abc isTriangleVisible_defined by blast
    have "\<exists>p. generateSVG_loop fmt points inds (i + 3)
                 (if v then paths @ path_group fmt (the ?a) (the ?b) (the ?c) else paths) = Inr p"
      using "1.IH" [OF True refl refl refl v "1.prems"(1,2) m] .
    moreover have "generateSVG_loop fmt points inds i paths =
        (case isTriangleVisible ?a ?b ?c of
           Inl e \<Rightarrow> Inl e
         | Inr v \<Rightarrow> generateSVG_loop fmt points inds (i + 3)
                     (if v then paths @ path_group fmt (the ?a) (the ?b) (the ?c) else paths))"
      using True by (subst generateSVG_loop.simps) (simp only: if_True Let_def)
    ultimately show ?thesis by (simp only: v sum.case)
  qed
qed

lemma length_projectToSVG:
  "length (projectToSVG project W H vs) = (length vs + 2) div 3"
  using projectToSVG_loop_eq [of project W H vs 0 "[]"] by (simp add: projectToSVG_def)

lemma js_to_string_text:
  "js_to_string fmt v =
     (case v of Fin r \<Rightarrow> fmt r | PInf \<Rightarrow> ''Infinity'' | NInf \<Rightarrow> ''-Infinity'' | NaN \<Rightarrow> ''NaN'')"
  by (cases v) simp_all

lemma triangle_group_text:
  assumes "point_at points inds (3 * k) = Some a"
    and "point_at points inds (3 * k + 1) = Some b"
    and "point_at points inds (3 * k + 2) = Some c"
  shows "triangle_group fmt points inds k =
           ''M'' @ js_to_string fmt (point_x a) @ '','' @ js_to_string fmt (point_y a) @
           '' L'' @ js_to_string fmt (point_x b) @ '','' @ js_to_string fmt (point_y b) @
           '' L'' @ js_to_string fmt (point_x c) @ '','' @ js_to_string fmt (point_y c) @
           '' Z ''"
  by (simp only: triangle_group_def assms option.sel path_group_def)

lemma generateSVG_document:
  assumes \<open>generateSVG fmt points inds W H = Inr doc\<close>
  shows \<open>doc =
     ''<?xml version="1.0" encoding="UTF-8"?>'' @ [CHR 0x0A] @
     ''            <svg width="'' @ js_to_string fmt W @ ''" height="'' @
     js_to_string fmt H @ ''" xmlns="http://www.w3.org/2000/svg">'' @ [CHR 0x0A] @
     ''                <path d="'' @
     concat (map (triangle_group fmt points inds)
       (filter (triangle_visible points inds) [0..<length inds div 3])) @
     ''" stroke="black" fill="none" stroke-width="0.5"/>'' @ [CHR 0x0A] @
     ''            </svg>''\<close>
proof -
  obtain paths where p: "generateSVG_loop fmt points inds 0 [] = Inr paths"
    and doc: "doc = svg_document fmt W H paths"
    using assms by (auto simp: generateSVG_def split: sum.splits)
  have "paths = concat (map (triangle_group fmt points inds)
                  (filter (triangle_visible points inds) [0..<(length inds + 2) div 3]))"
    using generateSVG_loop_paths [of fmt points inds 0 "[]" paths] p by simp
  then show ?thesis
    by (simp only: doc svg_document_def visible_triangles_complete)
qed

text \<open>
  C4. When \<open>generateSVG\<close> returns a document, the document is the fixed header with the
  viewport width and height, the path data and the fixed footer, and the path data are
  the path groups \<open>M ax,ay L bx,by L cx,cy Z\<close> of exactly the triangles for which the
  visibility test returned true, one group each, in the order of the index list; there
  are never more groups than triangles. A number is written as its text, \<open>NaN\<close>,
  \<open>Infinity\<close> or \<open>-Infinity\<close> when it is not finite. A document is returned whenever the
  index list holds whole triangles whose indices name elements of \<open>points\<close>.
\<close>

theorem generateSVG_emits_visible_triangles:
  \<open>let S = (\<lambda>v. case v of Fin r \<Rightarrow> fmt r | PInf \<Rightarrow> ''Infinity'' | NInf \<Rightarrow> ''-Infinity''
                         | NaN \<Rightarrow> ''NaN'')
   in
   (generateSVG fmt points inds W H = Inr doc \<longrightarrow>
      doc =
        ''<?xml version="1.0" encoding="UTF-8"?>'' @ [CHR 0x0A] @
        ''            <svg width="'' @ S W @ ''" height="'' @
        S H @ ''" xmlns="http://www.w3.org/2000/svg">'' @ [CHR 0x0A] @
        ''                <path d="'' @
        concat (map (triangle_group fmt points inds)
          (filter (triangle_visible points inds) [0..<length inds div 3])) @
        ''" stroke="black" fill="none" stroke-width="0.5"/>'' @ [CHR 0x0A] @
        ''            </svg>'') \<and>
   length (filter (triangle_visible points inds) [0..<length inds div 3]) \<le> length inds div 3 \<and>
   (triangle_visible points inds k \<longrightarrow>
      (\<exists>a b c. point_at points inds (3 * k) = Some a \<and>
               point_at points inds (3 * k + 1) = Some b \<and>
               point_at points inds (3 * k + 2) = Some c \<and>
               triangle_group fmt points inds k =
                 ''M'' @ S (point_x a) @ '','' @ S (point_y a) @
                 '' L'' @ S (point_x b) @ '','' @ S (point_y b) @
                 '' L'' @ S (point_x c) @ '','' @ S (point_y c) @ '' Z '')) \<and>
   (3 dvd length inds \<and> (\<forall>n \<in> set inds. n < length points) \<longrightarrow>
      (\<exists>d. generateSVG fmt points inds W H = Inr d))\<close>
  unfolding Let_def js_to_string_text [symmetric]
proof (intro conjI impI)
  assume "generateSVG fmt points inds W H = Inr doc"
  then show \<open>doc =
     ''<?xml version="1.0" encoding="UTF-8"?>'' @ [CHR 0x0A] @
     ''            <svg width="'' @ js_to_string fmt W @ ''" height="'' @
     js_to_string fmt H @ ''" xmlns="http://www.w3.org/2000/svg">'' @ [CHR 0x0A] @
     ''                <path d="'' @
     concat (map (triangle_group fmt points inds)
       (filter (triangle_visible points inds) [0..<length inds div 3])) @
     ''" stroke="black" fill="none" stroke-width="0.5"/>'' @ [CHR 0x0A] @
     ''            </svg>''\<close>
    by (rule generateSVG_document)
next
  show "length (filter (triangle_visible points inds) [0..<length inds div 3]) \<le> length inds div 3"
    using length_filter_le [of "triangle_visible points inds" "[0..<length inds div 3]"] by simp
next
  assume "triangle_visible points inds k"
  then obtain a b c where abc: "point_at points inds (3 * k) = Some a"
    "point_at points inds (3 * k + 1) = Some b" "point_at points inds (3 * k + 2) = Some c"
    unfolding triangle_visible_def by (blast dest: isTriangleVisible_True_defined)
  show "\<exists>a b c. point_at points inds (3 * k) = Some a \<and>
               point_at points inds (3 * k + 1) = Some b \<and>
               point_at points inds (3 * k + 2) = Some c \<and>
               triangle_group fmt points inds k =
                 ''M'' @ js_to_string fmt (point_x a) @ '','' @ js_to_string fmt (point_y a) @
                 '' L'' @ js_to_string fmt (point_x b) @ '','' @ js_to_string fmt (point_y b) @
                 '' L'' @ js_to_string fmt (point_x c) @ '','' @ js_to_string fmt (point_y c) @
                 '' Z ''"
    using abc triangle_group_text [OF abc] by blast
next
  assume "3 dvd length inds \<and> (\<forall>n \<in> set inds. n < length points)"
  then obtain paths where "generateSVG_loop fmt points inds 0 [] = Inr paths"
    using generateSVG_loop_total [of inds points 0 fmt "[]"] by auto
  then show "\<exists>d. generateSVG fmt points inds W H = Inr d" by (simp add: generateSVG_def)
qed

theorem generateSVG_emits_visible_triangles_witness:
  \<open>generateSVG fmt_integer example_points example_indices (Fin 800) (Fin 600) =
     Inr (''<?xml version="1.0" encoding="UTF-8"?>'' @ [CHR 0x0A] @
          ''            <svg width="800" height="600" xmlns="http://www.w3.org/2000/svg">'' @
          [CHR 0x0A] @
          ''                <path d="M1,2 L3,4 L5,6 Z " stroke="black" fill="none" stroke-width="0.5"/>'' @
          [CHR 0x0A] @
          ''            </svg>'') \<and>
   3 dvd length example_indices \<and>
   list_all (\<lambda>n. n < length example_points) example_indices \<and>
   filter (triangle_visible example_points example_indices) [0..<length example_indices div 3] = [1] \<and>
   triangle_visible example_points example_indices 1 \<and>
   triangle_group fmt_integer example_points example_indices 1 = ''M1,2 L3,4 L5,6 Z ''\<close>
proof -
  have len: "length example_indices = 6" by (simp add: example_indices_def)
  have wf: "3 dvd length example_indices" "\<forall>n \<in> set example_indices. n < length example_points"
    unfolding len by (simp_all add: example_indices_def example_points_def)
  have wf': "list_all (\<lambda>n. n < length example_points) example_indices"
    using wf(2) by (simp only: list_all_iff)
  have upt: "[0..<6 div 3] = [0, 1 :: nat]" by (simp add: upt_rec)
  have vis: "filter (triangle_visible example_points example_indices)
               [0..<length example_indices div 3] = [1]"
    unfolding len upt
    by (simp add: triangle_visible_def point_at_def array_get_def isTriangleVisible_def
        example_points_def example_indices_def)
  have v1: "triangle_visible example_points example_indices 1"
    by (simp add: triangle_visible_def point_at_def array_get_def isTriangleVisible_def
        example_points_def example_indices_def)
  have g1: "triangle_group fmt_integer example_points example_indices 1 = ''M1,2 L3,4 L5,6 Z ''"
    by (simp add: triangle_group_def point_at_def array_get_def path_group_def fmt_integer_def
        show_nat.simps example_points_def example_indices_def)
  have g1': "triangle_group fmt_integer example_points example_indices (Suc 0) =
               ''M1,2 L3,4 L5,6 Z ''"
    using g1 by simp
  have w: "fmt_integer 800 = ''800''" "fmt_integer 600 = ''600''"
    by (simp_all add: fmt_integer_def show_nat.simps)
  obtain d where d: "generateSVG fmt_integer example_points example_indices (Fin 800) (Fin 600) = Inr d"
    using wf generateSVG_emits_visible_triangles
      [of fmt_integer example_points example_indices "Fin 800" "Fin 600" d 1]
    unfolding Let_def by blast
  have dtext: \<open>d = ''<?xml version="1.0" encoding="UTF-8"?>'' @ [CHR 0x0A] @
          ''            <svg width="800" height="600" xmlns="http://www.w3.org/2000/svg">'' @
          [CHR 0x0A] @
          ''                <path d="M1,2 L3,4 L5,6 Z " stroke="black" fill="none" stroke-width="0.5"/>'' @
          [CHR 0x0A] @
          ''            </svg>''\<close>
    using d generateSVG_emits_visible_triangles
      [of fmt_integer example_points example_indices "Fin 800" "Fin 600" d 1]
    unfolding Let_def by (simp add: vis g1' w)
  show ?thesis
    unfolding dtext [symmetric]
    by (intro conjI) (rule d wf(1) wf' vis v1 g1)+
qed

lemma exportSVG_total:
  assumes "3 dvd length inds" and "\<forall>n \<in> set inds. 3 * n < length vs"
  shows "\<exists>d. exportSVG fmt project W H vs inds = Inr d"
proof -
  have "\<forall>n \<in> set inds. n < length (projectToSVG project W H vs)"
  proof
    fix n assume "n \<in> set inds"
    then have "3 * n < length vs" using assms(2) by blast
    then show "n < length (projectToSVG project W H vs)"
      unfolding length_projectToSVG by linarith
  qed
  then obtain paths where
    "generateSVG_loop fmt (projectToSVG project W H vs) inds 0 [] = Inr paths"
    using generateSVG_loop_total [of inds "projectToSVG project W H vs" 0 fmt "[]"] assms(1)
    by auto
  then show ?thesis by (simp add: exportSVG_def generateSVG_def)
qed

lemma exportSVG_document:
  assumes \<open>3 dvd length inds\<close> and \<open>\<forall>n \<in> set inds. 3 * n < length vs\<close>
  shows \<open>exportSVG fmt project W H vs inds =
     Inr (''<?xml version="1.0" encoding="UTF-8"?>'' @ [CHR 0x0A] @
          ''            <svg width="'' @ js_to_string fmt W @ ''" height="'' @
          js_to_string fmt H @ ''" xmlns="http://www.w3.org/2000/svg">'' @ [CHR 0x0A] @
          ''                <path d="'' @
          concat (map (triangle_group fmt (projectToSVG project W H vs) inds)
            (filter (triangle_visible (projectToSVG project W H vs) inds)
               [0..<length inds div 3])) @
          ''" stroke="black" fill="none" stroke-width="0.5"/>'' @ [CHR 0x0A] @
          ''            </svg>'')\<close>
proof -
  obtain d where d: "generateSVG fmt (projectToSVG project W H vs) inds W H = Inr d"
    using exportSVG_total [OF assms, of fmt project W H] by (auto simp: exportSVG_def)
  show ?thesis
    unfolding exportSVG_def d by (simp only: sum.inject) (rule generateSVG_document [OF d])
qed

lemma projected_corner:
  assumes "3 dvd length inds" and "\<forall>n \<in> set inds. 3 * n < length vs"
    and "k < length inds div 3"
  shows "point_at (projectToSVG project W H vs) inds (3 * k) =
           Some (projectToSVG project W H vs ! (inds ! (3 * k)))"
    and "point_at (projectToSVG project W H vs) inds (3 * k + 1) =
           Some (projectToSVG project W H vs ! (inds ! (3 * k + 1)))"
    and "point_at (projectToSVG project W H vs) inds (3 * k + 2) =
           Some (projectToSVG project W H vs ! (inds ! (3 * k + 2)))"
proof -
  have lt: "3 * k < length inds" "3 * k + 1 < length inds" "3 * k + 2 < length inds"
    using assms(1,3) by (auto elim!: dvdE)
  have all: "\<forall>n \<in> set inds. n < length (projectToSVG project W H vs)"
  proof
    fix n assume "n \<in> set inds"
    then have "3 * n < length vs" using assms(2) by blast
    then show "n < length (projectToSVG project W H vs)"
      unfolding length_projectToSVG by linarith
  qed
  show "point_at (projectToSVG project W H vs) inds (3 * k) =
           Some (projectToSVG project W H vs ! (inds ! (3 * k)))"
    by (rule point_at_defined [OF lt(1) all])
  show "point_at (projectToSVG project W H vs) inds (3 * k + 1) =
           Some (projectToSVG project W H vs ! (inds ! (3 * k + 1)))"
    by (rule point_at_defined [OF lt(2) all])
  show "point_at (projectToSVG project W H vs) inds (3 * k + 2) =
           Some (projectToSVG project W H vs ! (inds ! (3 * k + 2)))"
    by (rule point_at_defined [OF lt(3) all])
qed

lemma nan_depth_hidden:
  assumes "3 dvd length inds" and "\<forall>n \<in> set inds. 3 * n < length vs"
    and "k < length inds div 3"
    and "point_z (projectToSVG project W H vs ! (inds ! (3 * k))) = NaN \<or>
         point_z (projectToSVG project W H vs ! (inds ! (3 * k + 1))) = NaN \<or>
         point_z (projectToSVG project W H vs ! (inds ! (3 * k + 2))) = NaN"
  shows "\<not> triangle_visible (projectToSVG project W H vs) inds k"
proof -
  note c = projected_corner [OF assms(1-3), of project W H]
  have "isTriangleVisible (point_at (projectToSVG project W H vs) inds (3 * k))
          (point_at (projectToSVG project W H vs) inds (3 * k + 1))
          (point_at (projectToSVG project W H vs) inds (3 * k + 2)) = Inr False"
    unfolding c isTriangleVisible_defined using assms(4) by auto
  then show ?thesis by (simp only: triangle_visible_def) simp
qed

lemma visible_group_in_paths:
  assumes "k < n" and "vis k"
  shows "\<exists>front rest. concat (map g (filter vis [0..<n])) = front @ g k @ rest"
proof -
  have "k \<in> set (filter vis [0..<n])" using assms by simp
  then obtain xs ys where "filter vis [0..<n] = xs @ k # ys"
    using split_list [of k "filter vis [0..<n]"] by blast
  then have "concat (map g (filter vis [0..<n])) = concat (map g xs) @ g k @ concat (map g ys)"
    by simp
  then show ?thesis by blast
qed

text \<open>
  C8, as the code has it. The export has no check for values that are not finite and
  raises no computation error: whenever the index list holds whole triangles of existing
  vertices, it returns the document made of the fixed header, the path groups of the
  triangles that pass the visibility test and the fixed footer, whatever the vertex
  coordinates, the transform and the viewport are. A triangle with a corner of depth NaN
  is not among these groups: the document is the one of the other triangles. The group
  of a triangle that passes the test stands in the document with each screen coordinate
  as its text, which is \<open>NaN\<close>, \<open>Infinity\<close> or \<open>-Infinity\<close> for a coordinate that is not
  finite.
\<close>

theorem exportSVG_no_computation_error:
  assumes \<open>3 dvd length inds\<close> and \<open>\<forall>n \<in> set inds. 3 * n < length vs\<close>
  shows
  \<open>let S = (\<lambda>v. case v of Fin r \<Rightarrow> fmt r | PInf \<Rightarrow> ''Infinity'' | NInf \<Rightarrow> ''-Infinity''
                         | NaN \<Rightarrow> ''NaN'');
       points = projectToSVG project W H vs;
       header = ''<?xml version="1.0" encoding="UTF-8"?>'' @ [CHR 0x0A] @
                ''            <svg width="'' @ S W @ ''" height="'' @
                S H @ ''" xmlns="http://www.w3.org/2000/svg">'' @ [CHR 0x0A] @
                ''                <path d="'';
       footer = ''" stroke="black" fill="none" stroke-width="0.5"/>'' @ [CHR 0x0A] @
                ''            </svg>'';
       a = points ! (inds ! (3 * k));
       b = points ! (inds ! (3 * k + 1));
       c = points ! (inds ! (3 * k + 2))
   in
   exportSVG fmt project W H vs inds =
     Inr (header @
          concat (map (triangle_group fmt points inds)
            (filter (triangle_visible points inds) [0..<length inds div 3])) @
          footer) \<and>
   (k < length inds div 3 \<and> (point_z a = NaN \<or> point_z b = NaN \<or> point_z c = NaN) \<longrightarrow>
      exportSVG fmt project W H vs inds =
        Inr (header @
             concat (map (triangle_group fmt points inds)
               (filter (\<lambda>j. j \<noteq> k \<and> triangle_visible points inds j) [0..<length inds div 3])) @
             footer)) \<and>
   (k < length inds div 3 \<and> triangle_visible points inds k \<longrightarrow>
      (\<exists>front rest.
         exportSVG fmt project W H vs inds =
           Inr (header @ front @
                ''M'' @ S (point_x a) @ '','' @ S (point_y a) @
                '' L'' @ S (point_x b) @ '','' @ S (point_y b) @
                '' L'' @ S (point_x c) @ '','' @ S (point_y c) @ '' Z '' @
                rest @ footer)))\<close>
proof -
  let ?pts = "projectToSVG project W H vs"
  let ?g = "triangle_group fmt ?pts inds"
  let ?vis = "triangle_visible ?pts inds"
  let ?n = "length inds div 3"
  note doc = exportSVG_document [OF assms, of fmt project W H]
  have hidden: "filter ?vis [0..<?n] = filter (\<lambda>j. j \<noteq> k \<and> ?vis j) [0..<?n]"
    if "k < ?n" and "point_z (?pts ! (inds ! (3 * k))) = NaN \<or>
         point_z (?pts ! (inds ! (3 * k + 1))) = NaN \<or>
         point_z (?pts ! (inds ! (3 * k + 2))) = NaN"
  proof (rule filter_cong [OF refl])
    fix j
    show "?vis j = (j \<noteq> k \<and> ?vis j)"
      using nan_depth_hidden [OF assms that] by blast
  qed
  have shown: "\<exists>front rest. concat (map ?g (filter ?vis [0..<?n])) =
      front @
      (''M'' @ js_to_string fmt (point_x (?pts ! (inds ! (3 * k)))) @ '','' @
       js_to_string fmt (point_y (?pts ! (inds ! (3 * k)))) @
       '' L'' @ js_to_string fmt (point_x (?pts ! (inds ! (3 * k + 1)))) @ '','' @
       js_to_string fmt (point_y (?pts ! (inds ! (3 * k + 1)))) @
       '' L'' @ js_to_string fmt (point_x (?pts ! (inds ! (3 * k + 2)))) @ '','' @
       js_to_string fmt (point_y (?pts ! (inds ! (3 * k + 2)))) @ '' Z '') @ rest"
    if k: "k < ?n" and v: "?vis k"
  proof -
    note c = projected_corner [OF assms k, of project W H]
    have "?g k =
       ''M'' @ js_to_string fmt (point_x (?pts ! (inds ! (3 * k)))) @ '','' @
       js_to_string fmt (point_y (?pts ! (inds ! (3 * k)))) @
       '' L'' @ js_to_string fmt (point_x (?pts ! (inds ! (3 * k + 1)))) @ '','' @
       js_to_string fmt (point_y (?pts ! (inds ! (3 * k + 1)))) @
       '' L'' @ js_to_string fmt (point_x (?pts ! (inds ! (3 * k + 2)))) @ '','' @
       js_to_string fmt (point_y (?pts ! (inds ! (3 * k + 2)))) @ '' Z ''"
      by (rule triangle_group_text [OF c])
    then show ?thesis
      using visible_group_in_paths [OF k, of ?vis ?g] v by simp
  qed
  show ?thesis
    unfolding Let_def js_to_string_text [symmetric]
  proof (intro conjI impI)
    show \<open>exportSVG fmt project W H vs inds =
      Inr ((''<?xml version="1.0" encoding="UTF-8"?>'' @ [CHR 0x0A] @
            ''            <svg width="'' @ js_to_string fmt W @ ''" height="'' @
            js_to_string fmt H @ ''" xmlns="http://www.w3.org/2000/svg">'' @ [CHR 0x0A] @
            ''                <path d="'') @
           concat (map ?g (filter ?vis [0..<?n])) @
           ''" stroke="black" fill="none" stroke-width="0.5"/>'' @ [CHR 0x0A] @
           ''            </svg>'')\<close>
      unfolding doc by (simp only: append_assoc)
  next
    assume "k < ?n \<and> (point_z (?pts ! (inds ! (3 * k))) = NaN \<or>
         point_z (?pts ! (inds ! (3 * k + 1))) = NaN \<or>
         point_z (?pts ! (inds ! (3 * k + 2))) = NaN)"
    then have "filter ?vis [0..<?n] = filter (\<lambda>j. j \<noteq> k \<and> ?vis j) [0..<?n]"
      using hidden by blast
    then show \<open>exportSVG fmt project W H vs inds =
      Inr ((''<?xml version="1.0" encoding="UTF-8"?>'' @ [CHR 0x0A] @
            ''            <svg width="'' @ js_to_string fmt W @ ''" height="'' @
            js_to_string fmt H @ ''" xmlns="http://www.w3.org/2000/svg">'' @ [CHR 0x0A] @
            ''                <path d="'') @
           concat (map ?g (filter (\<lambda>j. j \<noteq> k \<and> ?vis j) [0..<?n])) @
           ''" stroke="black" fill="none" stroke-width="0.5"/>'' @ [CHR 0x0A] @
           ''            </svg>'')\<close>
      unfolding doc by (simp only: append_assoc)
  next
    assume "k < ?n \<and> ?vis k"
    then obtain front rest where fr: "concat (map ?g (filter ?vis [0..<?n])) =
      front @
      (''M'' @ js_to_string fmt (point_x (?pts ! (inds ! (3 * k)))) @ '','' @
       js_to_string fmt (point_y (?pts ! (inds ! (3 * k)))) @
       '' L'' @ js_to_string fmt (point_x (?pts ! (inds ! (3 * k + 1)))) @ '','' @
       js_to_string fmt (point_y (?pts ! (inds ! (3 * k + 1)))) @
       '' L'' @ js_to_string fmt (point_x (?pts ! (inds ! (3 * k + 2)))) @ '','' @
       js_to_string fmt (point_y (?pts ! (inds ! (3 * k + 2)))) @ '' Z '') @ rest"
      using shown by blast
    have \<open>exportSVG fmt project W H vs inds =
      Inr ((''<?xml version="1.0" encoding="UTF-8"?>'' @ [CHR 0x0A] @
            ''            <svg width="'' @ js_to_string fmt W @ ''" height="'' @
            js_to_string fmt H @ ''" xmlns="http://www.w3.org/2000/svg">'' @ [CHR 0x0A] @
            ''                <path d="'') @ front @
           ''M'' @ js_to_string fmt (point_x (?pts ! (inds ! (3 * k)))) @ '','' @
           js_to_string fmt (point_y (?pts ! (inds ! (3 * k)))) @
           '' L'' @ js_to_string fmt (point_x (?pts ! (inds ! (3 * k + 1)))) @ '','' @
           js_to_string fmt (point_y (?pts ! (inds ! (3 * k + 1)))) @
           '' L'' @ js_to_string fmt (point_x (?pts ! (inds ! (3 * k + 2)))) @ '','' @
           js_to_string fmt (point_y (?pts ! (inds ! (3 * k + 2)))) @ '' Z '' @
           rest @
           ''" stroke="black" fill="none" stroke-width="0.5"/>'' @ [CHR 0x0A] @
           ''            </svg>'')\<close>
      unfolding doc fr by (simp only: append_assoc)
    then show \<open>\<exists>front rest. exportSVG fmt project W H vs inds =
      Inr ((''<?xml version="1.0" encoding="UTF-8"?>'' @ [CHR 0x0A] @
            ''            <svg width="'' @ js_to_string fmt W @ ''" height="'' @
            js_to_string fmt H @ ''" xmlns="http://www.w3.org/2000/svg">'' @ [CHR 0x0A] @
            ''                <path d="'') @ front @
           ''M'' @ js_to_string fmt (point_x (?pts ! (inds ! (3 * k)))) @ '','' @
           js_to_string fmt (point_y (?pts ! (inds ! (3 * k)))) @
           '' L'' @ js_to_string fmt (point_x (?pts ! (inds ! (3 * k + 1)))) @ '','' @
           js_to_string fmt (point_y (?pts ! (inds ! (3 * k + 1)))) @
           '' L'' @ js_to_string fmt (point_x (?pts ! (inds ! (3 * k + 2)))) @ '','' @
           js_to_string fmt (point_y (?pts ! (inds ! (3 * k + 2)))) @ '' Z '' @
           rest @
           ''" stroke="black" fill="none" stroke-width="0.5"/>'' @ [CHR 0x0A] @
           ''            </svg>'')\<close>
      by blast
  qed
qed

lemma example_nan_projection:
  "projectToSVG project_example (Fin 800) (Fin 600) example_nan_vertices =
      [\<lparr>point_x = NaN, point_y = NaN, point_z = NaN\<rparr>,
       \<lparr>point_x = Fin 800, point_y = Fin 300, point_z = Fin 0\<rparr>,
       \<lparr>point_x = Fin 400, point_y = Fin 0, point_z = Fin 0\<rparr>]"
  by (simp add: projectToSVG_def projectToSVG_loop.simps example_nan_vertices_def array_get_def)

theorem exportSVG_no_computation_error_witness:
  \<open>3 dvd length example_two_triangles \<and>
   list_all (\<lambda>n. 3 * n < length example_nan_vertices) example_two_triangles \<and>
   0 < length example_two_triangles div 3 \<and>
   point_z (projectToSVG project_example (Fin 800) (Fin 600) example_nan_vertices !
              (example_two_triangles ! (3 * 0))) = NaN \<and>
   1 < length example_two_triangles div 3 \<and>
   triangle_visible (projectToSVG project_example (Fin 800) (Fin 600) example_nan_vertices)
     example_two_triangles 1 \<and>
   exportSVG fmt_integer project_example (Fin 800) (Fin 600) example_nan_vertices
       example_two_triangles =
     Inr (''<?xml version="1.0" encoding="UTF-8"?>'' @ [CHR 0x0A] @
          ''            <svg width="800" height="600" xmlns="http://www.w3.org/2000/svg">'' @
          [CHR 0x0A] @
          ''                <path d="M800,300 L400,0 L800,300 Z " stroke="black" fill="none" stroke-width="0.5"/>'' @
          [CHR 0x0A] @
          ''            </svg>'')\<close>
proof -
  let ?pts = "projectToSVG project_example (Fin 800) (Fin 600) example_nan_vertices"
  have len: "length example_two_triangles = 6" by (simp add: example_two_triangles_def)
  have n: "length example_two_triangles div 3 = 2" by (simp add: len)
  have wf: "3 dvd length example_two_triangles"
    "\<forall>n \<in> set example_two_triangles. 3 * n < length example_nan_vertices"
    unfolding len by (simp_all add: example_two_triangles_def example_nan_vertices_def)
  have wf': "list_all (\<lambda>n. 3 * n < length example_nan_vertices) example_two_triangles"
    using wf(2) by (simp only: list_all_iff)
  have k0: "0 < length example_two_triangles div 3" and k1: "1 < length example_two_triangles div 3"
    by (simp_all add: n)
  have z0: "point_z (?pts ! (example_two_triangles ! (3 * 0))) = NaN"
    by (simp add: example_nan_projection example_two_triangles_def)
  have v1: "triangle_visible ?pts example_two_triangles 1"
    by (simp add: example_nan_projection triangle_visible_def point_at_def array_get_def
        isTriangleVisible_def example_two_triangles_def)
  have v1': "triangle_visible ?pts example_two_triangles (Suc 0)" using v1 by simp
  have v0: "\<not> triangle_visible ?pts example_two_triangles 0"
    by (simp add: example_nan_projection triangle_visible_def point_at_def array_get_def
        isTriangleVisible_def example_two_triangles_def)
  have g1: "triangle_group fmt_integer ?pts example_two_triangles (Suc 0) =
              ''M800,300 L400,0 L800,300 Z ''"
    by (simp add: example_nan_projection triangle_group_def point_at_def array_get_def
        path_group_def fmt_integer_def show_nat.simps example_two_triangles_def)
  have upt: "[0..<2] = [0, Suc 0]" by (simp add: upt_rec)
  have w: "fmt_integer 800 = ''800''" "fmt_integer 600 = ''600''"
    by (simp_all add: fmt_integer_def show_nat.simps)
  have doc: \<open>exportSVG fmt_integer project_example (Fin 800) (Fin 600) example_nan_vertices
       example_two_triangles =
     Inr (''<?xml version="1.0" encoding="UTF-8"?>'' @ [CHR 0x0A] @
          ''            <svg width="800" height="600" xmlns="http://www.w3.org/2000/svg">'' @
          [CHR 0x0A] @
          ''                <path d="M800,300 L400,0 L800,300 Z " stroke="black" fill="none" stroke-width="0.5"/>'' @
          [CHR 0x0A] @
          ''            </svg>'')\<close>
    using k0 z0 exportSVG_no_computation_error
      [OF wf, of fmt_integer project_example "Fin 800" "Fin 600" 0]
    unfolding Let_def n upt by (simp add: v0 v1' g1 w)
  show ?thesis
    by (intro conjI) (rule wf(1) wf' k0 z0 k1 v1 doc)+
qed

text \<open>
  C8 as stated fails. A vertex array whose first coordinate is NaN is exported without
  any error: the document comes back with empty path data, its one triangle missing. A
  point array with screen coordinates that are not finite is emitted as it is, with
  \<open>NaN\<close>, \<open>Infinity\<close> and \<open>-Infinity\<close> inside the path data.
\<close>

theorem exportSVG_nonfinite_counterexample:
  \<open>exportSVG fmt_integer project_example (Fin 800) (Fin 600) example_nan_vertices [0, 1, 2] =
     Inr (''<?xml version="1.0" encoding="UTF-8"?>'' @ [CHR 0x0A] @
          ''            <svg width="800" height="600" xmlns="http://www.w3.org/2000/svg">'' @
          [CHR 0x0A] @
          ''                <path d="" stroke="black" fill="none" stroke-width="0.5"/>'' @
          [CHR 0x0A] @
          ''            </svg>'') \<and>
   generateSVG fmt_integer example_nonfinite_points [0, 1, 2] (Fin 800) (Fin 600) =
     Inr (''<?xml version="1.0" encoding="UTF-8"?>'' @ [CHR 0x0A] @
          ''            <svg width="800" height="600" xmlns="http://www.w3.org/2000/svg">'' @
          [CHR 0x0A] @
          ''                <path d="MNaN,2 LInfinity,4 L5,-Infinity Z " stroke="black" fill="none" stroke-width="0.5"/>'' @
          [CHR 0x0A] @
          ''            </svg>'')\<close>
proof (intro conjI)
  show \<open>exportSVG fmt_integer project_example (Fin 800) (Fin 600) example_nan_vertices [0, 1, 2] =
     Inr (''<?xml version="1.0" encoding="UTF-8"?>'' @ [CHR 0x0A] @
          ''            <svg width="800" height="600" xmlns="http://www.w3.org/2000/svg">'' @
          [CHR 0x0A] @
          ''                <path d="" stroke="black" fill="none" stroke-width="0.5"/>'' @
          [CHR 0x0A] @
          ''            </svg>'')\<close>
    unfolding exportSVG_def example_nan_projection
    by (simp add: generateSVG_def generateSVG_loop.simps point_at_def array_get_def
        isTriangleVisible_def svg_document_def fmt_integer_def show_nat.simps)
next
  show \<open>generateSVG fmt_integer example_nonfinite_points [0, 1, 2] (Fin 800) (Fin 600) =
     Inr (''<?xml version="1.0" encoding="UTF-8"?>'' @ [CHR 0x0A] @
          ''            <svg width="800" height="600" xmlns="http://www.w3.org/2000/svg">'' @
          [CHR 0x0A] @
          ''                <path d="MNaN,2 LInfinity,4 L5,-Infinity Z " stroke="black" fill="none" stroke-width="0.5"/>'' @
          [CHR 0x0A] @
          ''            </svg>'')\<close>
    by (simp add: generateSVG_def generateSVG_loop.simps point_at_def array_get_def
        isTriangleVisible_def path_group_def svg_document_def fmt_integer_def show_nat.simps
        example_nonfinite_points_def)
qed

end
